theory Spec2Isabelle
  imports Complex_Main
begin

section \<open>The inference data pipeline of fishbAIT\<close>

text \<open>
  A shallow embedding of \<^verbatim>\<open>inference_utils/pytorch_data_utils.py\<close> (the classes
  \<^verbatim>\<open>PreProcessDataForInference\<close>, \<^verbatim>\<open>Inference_dataset\<close> and
  \<^verbatim>\<open>BuildInferenceDataLoaderAndDataset\<close>) and of the batch branch of the
  \<^verbatim>\<open>Predict\<close> handler of \<^verbatim>\<open>app.py\<close>.

  Exceptions are values of the type \<open>error\<close>; a method that can raise returns
  \<open>error + 'a\<close>. A method that mutates \<^verbatim>\<open>self\<close> or one of its arguments returns
  the mutated objects next to its result. Text printed on standard output is a list of
  \<open>message\<close> values.
\<close>

subsection \<open>Exceptions and printed messages\<close>

datatype error =
  Exception string
  | IndexError
  | KeyError string
  | AttributeError
  | TypeError
  | ValueError
  | NameError string
  | TokenizationError

datatype message =
  Renamed_NOEC nat
  | No_onehot_for_Endpoint
  | No_onehot_for_Effect
  | Will_use_input_0

subsection \<open>The table\<close>

text \<open>
  A row carries the four columns the pipeline reads from the uploaded table. The
  labels are strings, as in the table: nothing stops a row from carrying a label
  outside the known ones.
\<close>

record row =
  SMILES :: string
  exposure_duration :: real
  endpoint :: string
  effect :: string

text \<open>
  A column added by the pipeline holds one vector per row. Its cells are either numpy
  arrays (the one-hot columns, built with \<^verbatim>\<open>np.array\<close>) or Python lists (the
  concatenated column, built with \<^verbatim>\<open>tolist\<close>): only the former have a
  \<^verbatim>\<open>tolist\<close> method. The entries of the one-hot vectors are the integers of
  \<^verbatim>\<open>np.eye(n, dtype=int)\<close>; the float \<^verbatim>\<open>0.0\<close> of \<^verbatim>\<open>np.zeros\<close> is
  written \<open>0\<close>.
\<close>

datatype column = NdArrays (cells: "int list list") | Lists (cells: "int list list")

text \<open>
  The data frame: its rows, the added vector columns by name in insertion order (pandas
  appends a new column on the right and overwrites an existing one in place), and the
  column of canonical SMILES once it has been computed. The row index is the position
  in \<open>rows\<close>, so \<^verbatim>\<open>reset_index().drop(columns='index')\<close> is the identity here.
\<close>

record dataframe =
  rows :: "row list"
  columns :: "(string \<times> column) list"
  SMILES_Canonical_RDKit :: "string list option"

definition DataFrame :: "row list \<Rightarrow> dataframe" where
  "DataFrame rs = \<lparr>rows = rs, columns = [], SMILES_Canonical_RDKit = None\<rparr>"

text \<open>\<^verbatim>\<open>name in df.columns\<close>, for the added columns.\<close>

definition has_column :: "string \<Rightarrow> dataframe \<Rightarrow> bool" where
  "has_column name df = (name \<in> set (map fst (columns df)))"

text \<open>\<^verbatim>\<open>df[name] = col\<close>\<close>

definition setitem :: "string \<Rightarrow> column \<Rightarrow> dataframe \<Rightarrow> dataframe" where
  "setitem name col df =
     df\<lparr>columns :=
          (if has_column name df
           then map (\<lambda>(n, c). if n = name then (n, col) else (n, c)) (columns df)
           else columns df @ [(name, col)])\<rparr>"

text \<open>The object \<^verbatim>\<open>self\<close> of \<^verbatim>\<open>PreProcessDataForInference\<close>, with what it has printed.\<close>

record processor =
  dataframe :: dataframe
  stdout :: "message list"

definition PreProcessDataForInference :: "dataframe \<Rightarrow> processor" where
  "PreProcessDataForInference df = \<lparr>dataframe = df, stdout = []\<rparr>"

definition print :: "message \<Rightarrow> processor \<Rightarrow> processor" where
  "print m self = self\<lparr>stdout := stdout self @ [m]\<rparr>"

subsection \<open>numpy and pandas helpers\<close>

text \<open>\<^verbatim>\<open>np.eye(n, dtype=int).tolist()\<close>\<close>

definition eye :: "nat \<Rightarrow> int list list" where
  "eye n = map (\<lambda>i. map (\<lambda>j. if i = j then 1 else 0) [0..<n]) [0..<n]"

text \<open>\<^verbatim>\<open>dict(zip(keys, values))\<close>: a later pair overwrites an earlier one with the same key.\<close>

definition dict_zip :: "string list \<Rightarrow> 'v list \<Rightarrow> (string \<rightharpoonup> 'v)" where
  "dict_zip ks vs = fold (\<lambda>(k, v) d. d(k \<mapsto> v)) (zip ks vs) Map.empty"

text \<open>\<^verbatim>\<open>d[k]\<close>\<close>

definition dict_getitem :: "(string \<rightharpoonup> 'v) \<Rightarrow> string \<Rightarrow> error + 'v" where
  "dict_getitem d k = (case d k of None \<Rightarrow> Inl (KeyError k) | Some v \<Rightarrow> Inr v)"

text \<open>\<^verbatim>\<open>series.apply(f)\<close>: the first exception of \<open>f\<close> ends the loop.\<close>

fun apply_series :: "('a \<Rightarrow> error + 'b) \<Rightarrow> 'a list \<Rightarrow> error + 'b list" where
  "apply_series f [] = Inr []"
| "apply_series f (x # xs) =
     (case f x of
        Inl e \<Rightarrow> Inl e
      | Inr y \<Rightarrow> (case apply_series f xs of Inl e \<Rightarrow> Inl e | Inr ys \<Rightarrow> Inr (y # ys)))"

subsection \<open>The categorical encoder\<close>

text \<open>
  \<^verbatim>\<open>self.dataframe.loc[self.dataframe.endpoint == 'NOEC', 'endpoint'] = 'EC10'\<close>
\<close>

definition rename_NOEC :: "dataframe \<Rightarrow> dataframe" where
  "rename_NOEC df =
     df\<lparr>rows := map (\<lambda>r. if endpoint r = ''NOEC'' then r\<lparr>endpoint := ''EC10''\<rparr> else r) (rows df)\<rparr>"

text \<open>\<^verbatim>\<open>sum(self.dataframe['endpoint'] == 'NOEC')\<close>\<close>

definition count_NOEC :: "dataframe \<Rightarrow> nat" where
  "count_NOEC df = length (filter (\<lambda>r. endpoint r = ''NOEC'') (rows df))"

text \<open>
  Lines 68 to 74 of \<^verbatim>\<open>__GetOneHotEndpoint\<close>: the merge of \<^verbatim>\<open>NOEC\<close> into
  \<^verbatim>\<open>EC10\<close>. It returns the argument list as \<^verbatim>\<open>list.remove\<close> leaves it (the
  first \<^verbatim>\<open>NOEC\<close> taken out; the \<^verbatim>\<open>ValueError\<close> of a list without one is
  swallowed) and the object.
\<close>

definition merge_step :: "string list \<Rightarrow> processor \<Rightarrow> string list \<times> processor" where
  "merge_step list_of_endpoints self =
     (if ''EC10'' \<in> set list_of_endpoints
      then (remove1 ''NOEC'' list_of_endpoints,
            (print (Renamed_NOEC (count_NOEC (dataframe self))) self)
              \<lparr>dataframe := rename_NOEC (dataframe self)\<rparr>)
      else (list_of_endpoints, self))"

text \<open>
  \<^verbatim>\<open>__GetOneHotEndpoint\<close>. The result is what the method returns or raises, the
  argument list after the call, and the object after the call.
\<close>

definition GetOneHotEndpoint ::
  "string list \<Rightarrow> processor \<Rightarrow> (error + dataframe) \<times> string list \<times> processor" where
  "GetOneHotEndpoint list_of_endpoints self =
     (let (labels, self1) = merge_step list_of_endpoints self in
      if length labels > 1 then
        (let encoding_order = [''EC50'', ''EC10''];
             hot_enc_dict = dict_zip encoding_order (eye (length encoding_order))
         in case apply_series (dict_getitem hot_enc_dict) (map endpoint (rows (dataframe self1))) of
              Inl e \<Rightarrow> (Inl (Exception ''An unexpected error occurred.''), labels, self1)
            | Inr encoded_clas \<Rightarrow>
                (let df = setitem ''OneHotEnc_endpoint'' (NdArrays encoded_clas) (dataframe self1)
                 in (Inr df, labels, self1\<lparr>dataframe := df\<rparr>)))
      else
        (let self2 = print No_onehot_for_Endpoint self1
         in (Inr (dataframe self2), labels, self2)))"

text \<open>\<^verbatim>\<open>__GetOneHotEffect\<close>: it does not change its argument list.\<close>

definition GetOneHotEffect ::
  "string list \<Rightarrow> processor \<Rightarrow> (error + dataframe) \<times> processor" where
  "GetOneHotEffect list_of_effects self =
     (if length list_of_effects > 1 then
        (let hot_enc_dict = dict_zip list_of_effects (eye (length list_of_effects))
         in case apply_series (dict_getitem hot_enc_dict) (map effect (rows (dataframe self))) of
              Inl e \<Rightarrow> (Inl (Exception ''An unexpected error occurred.''), self)
            | Inr encoded_clas \<Rightarrow>
                (let df = setitem ''OneHotEnc_effect'' (NdArrays encoded_clas) (dataframe self)
                 in (Inr df, self\<lparr>dataframe := df\<rparr>)))
      else
        (let self1 = print No_onehot_for_Effect self
         in (Inr (dataframe self1), self1)))"

subsection \<open>The feature assembler\<close>

text \<open>\<^verbatim>\<open>pat in name\<close>, the test behind \<^verbatim>\<open>filter(like=pat)\<close>.\<close>

fun startswith :: "string \<Rightarrow> string \<Rightarrow> bool" where
  "startswith s [] = True"
| "startswith [] (p # ps) = False"
| "startswith (c # cs) (p # ps) = (c = p \<and> startswith cs ps)"

fun contains :: "string \<Rightarrow> string \<Rightarrow> bool" where
  "contains [] pat = (pat = [])"
| "contains (c # cs) pat = (startswith (c # cs) pat \<or> contains cs pat)"

text \<open>\<^verbatim>\<open>self.dataframe.filter(like=pat).columns.tolist()\<close>, each name with its column.\<close>

definition filter_like :: "string \<Rightarrow> dataframe \<Rightarrow> (string \<times> column) list" where
  "filter_like pat df = filter (\<lambda>(name, c). contains name pat) (columns df)"

text \<open>
  \<^verbatim>\<open>np.array([el.tolist() for el in col.values])\<close>: a cell that is a Python list has
  no \<^verbatim>\<open>tolist\<close>.
\<close>

definition cells_tolist :: "column \<Rightarrow> error + int list list" where
  "cells_tolist col =
     (case col of
        NdArrays vs \<Rightarrow> Inr vs
      | Lists vs \<Rightarrow> if vs = [] then Inr [] else Inl AttributeError)"

text \<open>\<^verbatim>\<open>xs[i]\<close>\<close>

definition list_getitem :: "'a list \<Rightarrow> nat \<Rightarrow> error + 'a" where
  "list_getitem xs i = (if i < length xs then Inr (xs ! i) else Inl IndexError)"

text \<open>
  \<^verbatim>\<open>np.concatenate((a, b), axis=1)\<close>: the array of a table without rows has one
  dimension only and no axis 1; two matrices need the same number of rows.
\<close>

definition concatenate_axis1 :: "int list list \<Rightarrow> int list list \<Rightarrow> error + int list list" where
  "concatenate_axis1 a b =
     (if a = [] \<or> b = [] \<or> length a \<noteq> length b then Inl ValueError
      else Inr (map2 (@) a b))"

text \<open>One turn of the loop over \<^verbatim>\<open>enumerate(columns)\<close>, with its \<^verbatim>\<open>try\<close> and \<^verbatim>\<open>pass\<close>.\<close>

definition concat_step :: "(string \<times> column) list \<Rightarrow> nat \<Rightarrow> int list list \<Rightarrow> int list list" where
  "concat_step cols idx temp1 =
     (case list_getitem cols (idx + 1) of
        Inl e \<Rightarrow> temp1
      | Inr (name, col) \<Rightarrow>
          (case cells_tolist col of
             Inl e \<Rightarrow> temp1
           | Inr temp2 \<Rightarrow>
               (case concatenate_axis1 temp1 temp2 of
                  Inl e \<Rightarrow> temp1
                | Inr t \<Rightarrow> t)))"

text \<open>
  The body of the outer \<^verbatim>\<open>try\<close> of \<^verbatim>\<open>GetOneHotEnc\<close> (lines 39 to 47): the
  concatenated vectors, or the exception that sends control to the \<^verbatim>\<open>except\<close>.
\<close>

definition concat_onehot :: "dataframe \<Rightarrow> error + int list list" where
  "concat_onehot df =
     (let cols = filter_like ''OneHotEnc'' df in
      case list_getitem cols 0 of
        Inl e \<Rightarrow> Inl e
      | Inr (name, col) \<Rightarrow>
          (case cells_tolist col of
             Inl e \<Rightarrow> Inl e
           | Inr temp1 \<Rightarrow>
               (let temp = fold (concat_step cols) [0..<length cols] temp1 in
                if length temp \<noteq> length (rows df) then Inl ValueError else Inr temp)))"

text \<open>
  \<^verbatim>\<open>GetOneHotEnc\<close>. An exception of one of the two encoders leaves the method at
  once; the argument list of endpoints is returned as the endpoint encoder left it.
\<close>

definition GetOneHotEnc ::
  "string list \<Rightarrow> string list \<Rightarrow> processor \<Rightarrow> (error + dataframe) \<times> string list \<times> processor" where
  "GetOneHotEnc list_of_endpoints list_of_effects self =
     (case GetOneHotEndpoint list_of_endpoints self of
        (Inl e, labels, self1) \<Rightarrow> (Inl e, labels, self1)
      | (Inr df1, labels, self1) \<Rightarrow>
          (case GetOneHotEffect list_of_effects (self1\<lparr>dataframe := df1\<rparr>) of
             (Inl e, self2) \<Rightarrow> (Inl e, labels, self2)
           | (Inr df2, self2) \<Rightarrow>
               (let self3 = self2\<lparr>dataframe := df2\<rparr>;
                    self4 =
                      (case concat_onehot (dataframe self3) of
                         Inr temp1 \<Rightarrow>
                           self3\<lparr>dataframe :=
                                   setitem ''OneHotEnc_concatenated'' (Lists temp1) (dataframe self3)\<rparr>
                       | Inl e \<Rightarrow>
                           print Will_use_input_0
                             (self3\<lparr>dataframe :=
                                      setitem ''OneHotEnc_concatenated''
                                        (Lists (replicate (length (rows (dataframe self3))) [0]))
                                        (dataframe self3)\<rparr>))
                in (Inr (dataframe self4), labels, self4))))"

subsection \<open>The molecule normalizer\<close>

text \<open>
  RDKit is a parameter: \<open>MolFromSmiles\<close> returns a molecule, returns \<^verbatim>\<open>None\<close> for a
  string it cannot parse, or raises (for an argument that is no string);
  \<open>MolToSmiles\<close> writes a molecule. \<^verbatim>\<open>Chem.MolToSmiles(None)\<close> raises.
\<close>

definition MolToSmiles_of ::
  "('mol \<Rightarrow> error + string) \<Rightarrow> 'mol option \<Rightarrow> error + string" where
  "MolToSmiles_of MolToSmiles m = (case m of None \<Rightarrow> Inl TypeError | Some mol \<Rightarrow> MolToSmiles mol)"

text \<open>\<^verbatim>\<open>__CanonicalizeRDKit\<close>: the bare \<^verbatim>\<open>except\<close> returns the argument.\<close>

definition CanonicalizeRDKit ::
  "(string \<Rightarrow> error + 'mol option) \<Rightarrow> ('mol \<Rightarrow> error + string) \<Rightarrow> string \<Rightarrow> string" where
  "CanonicalizeRDKit MolFromSmiles MolToSmiles smiles =
     (case (case MolFromSmiles smiles of
              Inl e \<Rightarrow> Inl e
            | Inr m \<Rightarrow> MolToSmiles_of MolToSmiles m) of
        Inl e \<Rightarrow> smiles
      | Inr s \<Rightarrow> s)"

text \<open>\<^verbatim>\<open>GetCanonicalSMILES\<close>\<close>

definition GetCanonicalSMILES ::
  "(string \<Rightarrow> error + 'mol option) \<Rightarrow> ('mol \<Rightarrow> error + string) \<Rightarrow> processor
     \<Rightarrow> dataframe \<times> processor" where
  "GetCanonicalSMILES MolFromSmiles MolToSmiles self =
     (let df = (dataframe self)
                 \<lparr>SMILES_Canonical_RDKit :=
                    Some (map (\<lambda>r. CanonicalizeRDKit MolFromSmiles MolToSmiles (SMILES r))
                            (rows (dataframe self)))\<rparr>
      in (df, self\<lparr>dataframe := df\<rparr>))"

subsection \<open>The inference dataset\<close>

text \<open>
  What a cell of a row can hold: a string, a number, a numpy array or a Python list.
\<close>

datatype cell = Str string | Num real | Arr "int list" | Lst "int list"

text \<open>\<^verbatim>\<open>xs[i]\<close> is \<open>list_getitem\<close>; a step that can raise is chained with \<open>and_then\<close>.\<close>

definition and_then :: "error + 'a \<Rightarrow> ('a \<Rightarrow> error + 'b) \<Rightarrow> error + 'b" where
  "and_then m f = (case m of Inl e \<Rightarrow> Inl e | Inr x \<Rightarrow> f x)"

text \<open>\<^verbatim>\<open>self.df.iloc[idx][name]\<close>\<close>

definition iloc_getitem :: "dataframe \<Rightarrow> nat \<Rightarrow> string \<Rightarrow> error + cell" where
  "iloc_getitem df idx name =
     (if idx \<ge> length (rows df) then Inl IndexError
      else
        (let r = rows df ! idx in
         if name = ''SMILES'' then Inr (Str (SMILES r))
         else if name = ''exposure_duration'' then Inr (Num (exposure_duration r))
         else if name = ''endpoint'' then Inr (Str (endpoint r))
         else if name = ''effect'' then Inr (Str (effect r))
         else if name = ''SMILES_Canonical_RDKit'' then
           (case SMILES_Canonical_RDKit df of
              None \<Rightarrow> Inl (KeyError name)
            | Some cs \<Rightarrow> and_then (list_getitem cs idx) (\<lambda>c. Inr (Str c)))
         else
           (case map_of (columns df) name of
              None \<Rightarrow> Inl (KeyError name)
            | Some (NdArrays vs) \<Rightarrow> and_then (list_getitem vs idx) (\<lambda>v. Inr (Arr v))
            | Some (Lists vs) \<Rightarrow> and_then (list_getitem vs idx) (\<lambda>v. Inr (Lst v)))))"

text \<open>
  \<^verbatim>\<open>torch.tensor(x, dtype=torch.float32)\<close>: a scalar for a number, a vector for an
  array or a list, an exception for a string.
\<close>

datatype tensor = Scalar real | Vector "real list"

definition torch_tensor :: "cell \<Rightarrow> error + tensor" where
  "torch_tensor c =
     (case c of
        Num x \<Rightarrow> Inr (Scalar x)
      | Arr v \<Rightarrow> Inr (Vector (map real_of_int v))
      | Lst v \<Rightarrow> Inr (Vector (map real_of_int v))
      | Str s \<Rightarrow> Inl TypeError)"

record sample =
  input_ids :: "int list"
  attention_mask :: "int list"
  duration :: tensor
  onehotenc :: tensor

text \<open>
  \<^verbatim>\<open>Inference_dataset.__getitem__\<close>. The tokenizer is a parameter:
  \<open>tokenizer c max_len\<close> stands for
  \<^verbatim>\<open>tokenizer.encode_plus(c, truncation=True, max_length=max_len)\<close> and gives the
  token ids and the attention mask, or raises.
\<close>

definition Inference_dataset_getitem ::
  "(cell \<Rightarrow> int \<Rightarrow> error + int list \<times> int list) \<Rightarrow> dataframe \<Rightarrow> string list \<Rightarrow> int \<Rightarrow> nat
     \<Rightarrow> error + sample" where
  "Inference_dataset_getitem tokenizer df variables max_len idx =
     (if idx \<ge> length (rows df) then Inl IndexError
      else
        and_then (list_getitem variables 0) (\<lambda>v0.
        and_then (iloc_getitem df idx v0) (\<lambda>c0.
        and_then (tokenizer c0 max_len) (\<lambda>(ids, mask).
        and_then (list_getitem variables 1) (\<lambda>v1.
        and_then (iloc_getitem df idx v1) (\<lambda>c1.
        and_then (torch_tensor c1) (\<lambda>dur.
        and_then (list_getitem variables 2) (\<lambda>v2.
        and_then (iloc_getitem df idx v2) (\<lambda>c2.
        and_then (torch_tensor c2) (\<lambda>onehot.
          Inr \<lparr>input_ids = ids, attention_mask = mask, duration = dur,
               onehotenc = onehot\<rparr>))))))))))"

subsection \<open>The batch loader\<close>

text \<open>
  \<^verbatim>\<open>SequentialSampler(dataset)\<close> yields \<^verbatim>\<open>range(len(dataset))\<close>. The loader groups
  the indices with torch's \<^verbatim>\<open>BatchSampler\<close> (\<^verbatim>\<open>drop_last=False\<close>): an index joins
  the current batch, a full batch is yielded, and what is left at the end is yielded
  if it is not empty.
\<close>

definition SequentialSampler :: "nat \<Rightarrow> nat list" where
  "SequentialSampler n = [0..<n]"

fun BatchSampler :: "nat \<Rightarrow> nat list \<Rightarrow> nat list \<Rightarrow> nat list list" where
  "BatchSampler batch_size batch [] = (if batch \<noteq> [] then [batch] else [])"
| "BatchSampler batch_size batch (idx # sampler) =
     (let batch' = batch @ [idx] in
      if length batch' = batch_size then batch' # BatchSampler batch_size [] sampler
      else BatchSampler batch_size batch' sampler)"

text \<open>
  The batches of row indices of
  \<^verbatim>\<open>DataLoader(dataset, sampler=sampler, batch_size=bs, ...)\<close>; torch refuses a batch
  size that is not positive when the loader is built.
\<close>

definition DataLoader_index_batches :: "dataframe \<Rightarrow> int \<Rightarrow> error + nat list list" where
  "DataLoader_index_batches df bs =
     (if bs \<le> 0 then Inl ValueError
      else Inr (BatchSampler (nat bs) [] (SequentialSampler (length (rows df)))))"

text \<open>
  The lists of samples that the loader of \<^verbatim>\<open>BuildInferenceDataLoaderAndDataset\<close>
  hands to its collator, batch after batch: \<^verbatim>\<open>[dataset[i] for i in batch]\<close>.
\<close>

definition dataloader_samples ::
  "(cell \<Rightarrow> int \<Rightarrow> error + int list \<times> int list) \<Rightarrow> dataframe \<Rightarrow> string list \<Rightarrow> int \<Rightarrow> int
     \<Rightarrow> error + sample list list" where
  "dataloader_samples tokenizer df variables batch_size max_length =
     and_then (DataLoader_index_batches df batch_size)
       (apply_series (apply_series (Inference_dataset_getitem tokenizer df variables max_length)))"

text \<open>
  Iterating over \<^verbatim>\<open>BuildInferenceDataLoaderAndDataset(...).dataloader\<close>. The collator
  (\<^verbatim>\<open>DataCollatorWithPadding\<close>, which pads the token ids and the mask of a batch) is
  a parameter.
\<close>

definition dataloader ::
  "(sample list \<Rightarrow> error + 'batch) \<Rightarrow> (cell \<Rightarrow> int \<Rightarrow> error + int list \<times> int list)
     \<Rightarrow> dataframe \<Rightarrow> string list \<Rightarrow> int \<Rightarrow> int \<Rightarrow> error + 'batch list" where
  "dataloader collator tokenizer df variables batch_size max_length =
     and_then (dataloader_samples tokenizer df variables batch_size max_length)
       (apply_series collator)"

subsection \<open>The batch branch of the Predict handler\<close>

text \<open>
  Python looks a global name up when the statement that uses it runs, and raises
  \<^verbatim>\<open>NameError\<close> for a name that no import, definition or assignment has bound.
  \<open>app_globals\<close> lists the names that \<^verbatim>\<open>app.py\<close> has bound when the branch runs:
  those of the imports of lines 1 to 6, of the functions of lines 11 and 16, and of the
  assignments of lines 22 to 32.
\<close>

definition app_globals :: "string list" where
  "app_globals =
     [''st'', ''pd'', ''np'', ''torch'', ''tokenizers'', ''fishbAIT'', ''loadmodel'',
      ''loadtokenizer'', ''app_mode'', ''input_type'', ''endpoints'', ''effects'',
      ''model_type'', ''PREDICTION_ENDPOINT'', ''PREDICTION_EFFECT'', ''modeltype'']"

definition load_global :: "string list \<Rightarrow> string \<Rightarrow> error + unit" where
  "load_global globals name = (if name \<in> set globals then Inr () else Inl (NameError name))"

text \<open>
  \<^verbatim>\<open>loadtokenizer\<close>, lines 16 to 18: \<open>from_pretrained\<close> stands for the call
  \<^verbatim>\<open>AutoTokenizer.from_pretrained(...)\<close> once the name \<^verbatim>\<open>AutoTokenizer\<close> is found.
\<close>

definition loadtokenizer :: "string list \<Rightarrow> (error + 'tok) \<Rightarrow> error + 'tok" where
  "loadtokenizer globals from_pretrained =
     and_then (load_global globals ''AutoTokenizer'') (\<lambda>_. from_pretrained)"

text \<open>
  Lines 38 to 44, run when a file has been uploaded: \<^verbatim>\<open>pd.read_csv\<close>, then the
  call of \<^verbatim>\<open>PreProcessDataForInference\<close>. \<open>lines_40_to_43\<close> stands for what these
  lines compute from the table once that name is found; \<^verbatim>\<open>app.py\<close> binds no object to
  it.
\<close>

definition upload_part ::
  "string list \<Rightarrow> ('csv \<Rightarrow> error + dataframe) \<Rightarrow> (dataframe \<Rightarrow> error + dataframe) \<Rightarrow> 'csv
     \<Rightarrow> error + dataframe" where
  "upload_part globals read_csv lines_40_to_43 file_up =
     and_then (read_csv file_up) (\<lambda>df.
     and_then (load_global globals ''PreProcessDataForInference'') (\<lambda>_.
       lines_40_to_43 df))"

text \<open>
  Lines 46 to 74, run when the button is pressed: \<^verbatim>\<open>loadmodel\<close>,
  \<^verbatim>\<open>loadtokenizer\<close>, then the call of \<^verbatim>\<open>BuildInferenceDataLoader\<close>.
  \<open>lines_56_to_74\<close> stands for what the rest of the handler computes (the loader, the
  loop over its batches, the table with the two new columns) once that name is found.
\<close>

definition predict_button ::
  "string list \<Rightarrow> (error + 'model) \<Rightarrow> (error + 'tok)
     \<Rightarrow> ('model \<Rightarrow> 'tok \<Rightarrow> dataframe option \<Rightarrow> error + 'result) \<Rightarrow> dataframe option
     \<Rightarrow> error + 'result" where
  "predict_button globals loadmodel from_pretrained lines_56_to_74 df =
     and_then loadmodel (\<lambda>model.
     and_then (loadtokenizer globals from_pretrained) (\<lambda>tokenizer.
     and_then (load_global globals ''BuildInferenceDataLoader'') (\<lambda>_.
       lines_56_to_74 model tokenizer df)))"

text \<open>
  Lines 35 to 74, one run of the script in batch mode: \<open>file_up\<close> is the uploaded
  file, if any, and \<open>button\<close> tells whether \<^verbatim>\<open>Predict\<close> was pressed. The result is
  the table of predictions that the run shows, if it shows one.
\<close>

definition batch_branch ::
  "string list \<Rightarrow> ('csv \<Rightarrow> error + dataframe) \<Rightarrow> (dataframe \<Rightarrow> error + dataframe)
     \<Rightarrow> (error + 'model) \<Rightarrow> (error + 'tok)
     \<Rightarrow> ('model \<Rightarrow> 'tok \<Rightarrow> dataframe option \<Rightarrow> error + 'result) \<Rightarrow> 'csv option \<Rightarrow> bool
     \<Rightarrow> error + 'result option" where
  "batch_branch globals read_csv lines_40_to_43 loadmodel from_pretrained lines_56_to_74
     file_up button =
     and_then
       (case file_up of
          None \<Rightarrow> Inr None
        | Some f \<Rightarrow>
            and_then (upload_part globals read_csv lines_40_to_43 f) (\<lambda>df. Inr (Some df)))
       (\<lambda>df.
          if button then
            and_then (predict_button globals loadmodel from_pretrained lines_56_to_74 df)
              (\<lambda>result. Inr (Some result))
          else Inr None)"

subsection \<open>Example tables\<close>

definition row_EC50 :: row where
  "row_EC50 = \<lparr>SMILES = ''C1=CC=CC=C1'', exposure_duration = 96, endpoint = ''EC50'',
                effect = ''MOR''\<rparr>"

definition row_EC10 :: row where
  "row_EC10 = \<lparr>SMILES = ''CCO'', exposure_duration = 96, endpoint = ''EC10'',
                effect = ''MOR''\<rparr>"

definition row_NOEC :: row where
  "row_NOEC = \<lparr>SMILES = ''CCN'', exposure_duration = 48, endpoint = ''NOEC'',
                effect = ''DVP''\<rparr>"

definition row_LC50 :: row where
  "row_LC50 = \<lparr>SMILES = ''CCC'', exposure_duration = 48, endpoint = ''LC50'',
                effect = ''MOR''\<rparr>"

definition row_ITX :: row where
  "row_ITX = \<lparr>SMILES = ''CCCl'', exposure_duration = 24, endpoint = ''EC50'',
               effect = ''ITX''\<rparr>"

text \<open>
  A table as a caller can hand it to the loader: two rows whose vectors in
  \<^verbatim>\<open>OneHotEnc_concatenated\<close> have different lengths.
\<close>

definition df_ragged :: dataframe where
  "df_ragged =
     \<lparr>rows = [row_EC50, row_EC10],
      columns = [(''OneHotEnc_concatenated'', Lists [[1, 0], [0]])],
      SMILES_Canonical_RDKit = Some [''c1ccccc1'', ''CCO'']\<rparr>"

text \<open>A table of three rows after preprocessing, with homogeneous categories.\<close>

definition df_ready :: dataframe where
  "df_ready =
     \<lparr>rows = [row_EC50, row_EC10, row_NOEC],
      columns = [(''OneHotEnc_concatenated'', Lists [[0], [0], [0]])],
      SMILES_Canonical_RDKit = Some [''c1ccccc1'', ''CCO'', ''CCN'']\<rparr>"

subsection \<open>Example collaborators\<close>

text \<open>A chemistry toolkit that knows one molecule, written in two ways.\<close>

datatype toy_mol = Ethanol

definition toy_MolFromSmiles :: "string \<Rightarrow> error + toy_mol option" where
  "toy_MolFromSmiles s = (if s = ''OCC'' \<or> s = ''CCO'' then Inr (Some Ethanol) else Inr None)"

definition toy_MolToSmiles :: "toy_mol \<Rightarrow> error + string" where
  "toy_MolToSmiles m = Inr ''CCO''"

text \<open>A tokenizer with one token per character, cut at the maximal length.\<close>

definition toy_tokenizer :: "cell \<Rightarrow> int \<Rightarrow> error + int list \<times> int list" where
  "toy_tokenizer c max_len =
     (case c of
        Str s \<Rightarrow>
          Inr (map (\<lambda>ch. if ch = CHR ''C'' then 1 else 2) (take (nat max_len) s),
               replicate (length (take (nat max_len) s)) 1)
      | _ \<Rightarrow> Inl TokenizationError)"

section \<open>Properties\<close>

subsection \<open>Helper lemmas on the numpy and pandas helpers\<close>

lemma apply_series_Inr_iff:
  "apply_series f xs = Inr ys \<longleftrightarrow> map f xs = map Inr ys"
proof (induction xs arbitrary: ys)
  case Nil
  then show ?case by auto
next
  case (Cons x xs)
  show ?case
  proof (cases ys)
    case Nil
    then show ?thesis by (simp split: sum.splits)
  next
    case (Cons y ys')
    with Cons.IH [of ys'] show ?thesis by (auto split: sum.splits)
  qed
qed

lemma apply_series_length: "apply_series f xs = Inr ys \<Longrightarrow> length ys = length xs"
  using map_eq_imp_length_eq [of f xs Inr ys] by (simp add: apply_series_Inr_iff)

lemma apply_series_Inl_iff:
  "(\<exists>e. apply_series f xs = Inl e) \<longleftrightarrow> (\<exists>x\<in>set xs. \<exists>e. f x = Inl e)"
  by (induction xs) (auto split: sum.splits)

lemma apply_series_total:
  "\<forall>x\<in>set xs. f x = Inr (g x) \<Longrightarrow> apply_series f xs = Inr (map g xs)"
  by (induction xs) auto

lemma hot_enc_endpoint:
  "dict_getitem (dict_zip [''EC50'', ''EC10''] (eye (Suc (Suc 0)))) x =
     (if x = ''EC10'' then Inr [0, 1] else if x = ''EC50'' then Inr [1, 0] else Inl (KeyError x))"
  by (simp add: dict_getitem_def dict_zip_def eye_def)

lemma eye_nth: "i < n \<Longrightarrow> eye n ! i = (replicate n 0)[i := 1]"
  by (auto simp: eye_def list_eq_iff_nth_eq nth_list_update)

lemma dict_zip_snoc:
  "length ks = length vs \<Longrightarrow> dict_zip (ks @ [k]) (vs @ [v]) = (dict_zip ks vs)(k \<mapsto> v)"
  by (simp add: dict_zip_def)

lemma dict_zip_None: "length ks = length vs \<Longrightarrow> x \<notin> set ks \<Longrightarrow> dict_zip ks vs x = None"
proof (induction ks arbitrary: vs rule: rev_induct)
  case Nil
  then show ?case by (simp add: dict_zip_def)
next
  case (snoc k ks)
  then obtain vs' v where vs: "vs = vs' @ [v]" "length ks = length vs'"
    by (cases vs rule: rev_cases) auto
  with snoc show ?case by (simp add: dict_zip_snoc)
qed

lemma dict_zip_last:
  "length ks = length vs \<Longrightarrow> i < length ks \<Longrightarrow> ks ! i \<notin> set (drop (Suc i) ks)
     \<Longrightarrow> dict_zip ks vs (ks ! i) = Some (vs ! i)"
proof (induction ks arbitrary: vs rule: rev_induct)
  case Nil
  then show ?case by simp
next
  case (snoc k ks)
  then obtain vs' v where vs: "vs = vs' @ [v]" "length ks = length vs'"
    by (cases vs rule: rev_cases) auto
  show ?case
  proof (cases "i < length ks")
    case True
    with snoc.prems have "ks ! i \<noteq> k" "ks ! i \<notin> set (drop (Suc i) ks)"
      by (auto simp: nth_append)
    with snoc.IH [OF vs(2) True] True vs show ?thesis
      by (simp add: dict_zip_snoc nth_append)
  next
    case False
    with snoc.prems have "i = length ks" by simp
    with vs show ?thesis by (simp add: dict_zip_snoc nth_append)
  qed
qed

lemma dict_zip_dom: "length ks = length vs \<Longrightarrow> dom (dict_zip ks vs) = set ks"
proof (induction ks arbitrary: vs rule: rev_induct)
  case Nil
  then show ?case by (simp add: dict_zip_def)
next
  case (snoc k ks)
  then obtain vs' v where vs: "vs = vs' @ [v]" "length ks = length vs'"
    by (cases vs rule: rev_cases) auto
  with snoc show ?case by (auto simp: dict_zip_snoc dom_def)
qed

lemma length_eye: "length (eye n) = n"
  by (simp add: eye_def)

subsection \<open>Helper lemmas on the categorical encoder\<close>

lemma merge_step_labels:
  "fst (merge_step ls self) = (if ''EC10'' \<in> set ls then remove1 ''NOEC'' ls else ls)"
  by (simp add: merge_step_def)

lemma merge_step_columns:
  "columns (dataframe (snd (merge_step ls self))) = columns (dataframe self)"
  by (simp add: merge_step_def rename_NOEC_def print_def)

lemma merge_step_rows:
  "rows (dataframe (snd (merge_step ls self))) =
     (if ''EC10'' \<in> set ls then rows (rename_NOEC (dataframe self)) else rows (dataframe self))"
  by (simp add: merge_step_def print_def)

lemma GetOneHotEndpoint_skip:
  assumes "\<not> 1 < length (fst (merge_step ls self))"
  shows "GetOneHotEndpoint ls self =
           (Inr (dataframe (snd (merge_step ls self))), fst (merge_step ls self),
            print No_onehot_for_Endpoint (snd (merge_step ls self)))"
  using assms by (simp add: GetOneHotEndpoint_def Let_def split_beta print_def)

lemma GetOneHotEndpoint_encode:
  assumes "1 < length (fst (merge_step ls self))"
    and "\<forall>r\<in>set (rows (dataframe (snd (merge_step ls self)))).
           endpoint r = ''EC50'' \<or> endpoint r = ''EC10''"
  shows "GetOneHotEndpoint ls self =
           (Inr (setitem ''OneHotEnc_endpoint''
                   (NdArrays (map (\<lambda>r. if endpoint r = ''EC50'' then [1, 0] else [0, 1])
                                (rows (dataframe (snd (merge_step ls self))))))
                   (dataframe (snd (merge_step ls self)))),
            fst (merge_step ls self),
            (snd (merge_step ls self))
              \<lparr>dataframe :=
                 setitem ''OneHotEnc_endpoint''
                   (NdArrays (map (\<lambda>r. if endpoint r = ''EC50'' then [1, 0] else [0, 1])
                                (rows (dataframe (snd (merge_step ls self))))))
                   (dataframe (snd (merge_step ls self)))\<rparr>)"
proof -
  let ?rs = "rows (dataframe (snd (merge_step ls self)))"
  have "apply_series
          (dict_getitem (dict_zip [''EC50'', ''EC10''] (eye (Suc (Suc 0)))))
          (map endpoint ?rs) =
        Inr (map (\<lambda>x. if x = ''EC50'' then [1, 0] else [0, 1]) (map endpoint ?rs))"
    by (rule apply_series_total) (use assms(2) in \<open>auto simp: hot_enc_endpoint\<close>)
  then show ?thesis
    using assms(1) by (simp add: GetOneHotEndpoint_def Let_def split_beta comp_def)
qed


lemma apply_series_raises:
  "x \<in> set xs \<Longrightarrow> f x = Inl e \<Longrightarrow> \<exists>e'. apply_series f xs = Inl e'"
  by (induction xs) (auto split: sum.splits)

lemma GetOneHotEndpoint_raise:
  assumes "1 < length (fst (merge_step ls self))"
    and "\<exists>r\<in>set (rows (dataframe (snd (merge_step ls self)))).
           endpoint r \<noteq> ''EC50'' \<and> endpoint r \<noteq> ''EC10''"
  shows "GetOneHotEndpoint ls self =
           (Inl (Exception ''An unexpected error occurred.''), fst (merge_step ls self),
            snd (merge_step ls self))"
proof -
  let ?rs = "rows (dataframe (snd (merge_step ls self)))"
  let ?d = "dict_getitem (dict_zip [''EC50'', ''EC10''] (eye (Suc (Suc 0))))"
  from assms(2) obtain r where r: "r \<in> set ?rs" "endpoint r \<noteq> ''EC50''" "endpoint r \<noteq> ''EC10''"
    by blast
  have "?d (endpoint r) = Inl (KeyError (endpoint r))"
    using r(2,3) by (simp add: hot_enc_endpoint)
  moreover have "endpoint r \<in> set (map endpoint ?rs)"
    using r(1) by simp
  ultimately obtain e where "apply_series ?d (map endpoint ?rs) = Inl e"
    using apply_series_raises [of "endpoint r" "map endpoint ?rs" ?d] by blast
  then show ?thesis
    using assms(1) by (simp add: GetOneHotEndpoint_def Let_def split_beta)
qed


lemma GetOneHotEffect_skip:
  assumes "\<not> 1 < length es"
  shows "GetOneHotEffect es self = (Inr (dataframe self), print No_onehot_for_Effect self)"
  using assms by (simp add: GetOneHotEffect_def Let_def print_def)

lemma dict_getitem_effect:
  assumes "x \<in> set es"
  shows "dict_getitem (dict_zip es (eye (length es))) x =
           Inr (the (dict_zip es (eye (length es)) x))"
proof -
  have "x \<in> dom (dict_zip es (eye (length es)))"
    using assms by (simp add: dict_zip_dom length_eye)
  then show ?thesis by (auto simp: dict_getitem_def)
qed

lemma GetOneHotEffect_encode:
  assumes "1 < length es" and "\<forall>r\<in>set (rows (dataframe self)). effect r \<in> set es"
  shows "GetOneHotEffect es self =
           (Inr (setitem ''OneHotEnc_effect''
                   (NdArrays (map (\<lambda>r. the (dict_zip es (eye (length es)) (effect r)))
                                (rows (dataframe self))))
                   (dataframe self)),
            self\<lparr>dataframe :=
                   setitem ''OneHotEnc_effect''
                     (NdArrays (map (\<lambda>r. the (dict_zip es (eye (length es)) (effect r)))
                                  (rows (dataframe self))))
                     (dataframe self)\<rparr>)"
proof -
  have "apply_series (dict_getitem (dict_zip es (eye (length es))))
          (map effect (rows (dataframe self))) =
        Inr (map (\<lambda>x. the (dict_zip es (eye (length es)) x)) (map effect (rows (dataframe self))))"
    by (rule apply_series_total) (use assms(2) in \<open>auto simp: dict_getitem_effect\<close>)
  then show ?thesis
    using assms(1) by (simp add: GetOneHotEffect_def Let_def comp_def)
qed

lemma GetOneHotEffect_raise:
  assumes "1 < length es" and "\<exists>r\<in>set (rows (dataframe self)). effect r \<notin> set es"
  shows "GetOneHotEffect es self = (Inl (Exception ''An unexpected error occurred.''), self)"
proof -
  let ?d = "dict_getitem (dict_zip es (eye (length es)))"
  from assms(2) obtain r where r: "r \<in> set (rows (dataframe self))" "effect r \<notin> set es"
    by blast
  have "?d (effect r) = Inl (KeyError (effect r))"
    using r(2) by (simp add: dict_getitem_def dict_zip_None length_eye)
  moreover have "effect r \<in> set (map effect (rows (dataframe self)))"
    using r(1) by simp
  ultimately obtain e where "apply_series ?d (map effect (rows (dataframe self))) = Inl e"
    using apply_series_raises [of "effect r" "map effect (rows (dataframe self))" ?d] by blast
  then show ?thesis
    using assms(1) by (simp add: GetOneHotEffect_def Let_def)
qed

lemma hot_enc_effect_position:
  assumes "i < length es" and "es ! i \<notin> set (drop (Suc i) es)"
  shows "the (dict_zip es (eye (length es)) (es ! i)) = (replicate (length es) 0)[i := 1]"
  using assms by (simp add: dict_zip_last length_eye eye_nth)

lemma map_fst_overwrite:
  "map fst (map (\<lambda>(n, c). if n = name then (n, col) else (n, c)) xs) = map fst xs"
  by (induction xs) auto

lemma names_setitem:
  "map fst (columns (setitem n c df)) =
     (if has_column n df then map fst (columns df) else map fst (columns df) @ [n])"
  by (simp add: setitem_def map_fst_overwrite del: map_map)

lemma has_column_setitem [simp]:
  "has_column n' (setitem n c df) \<longleftrightarrow> n' = n \<or> has_column n' df"
proof -
  have "n' \<in> set (map fst (columns (setitem n c df))) \<longleftrightarrow>
          n' = n \<or> n' \<in> set (map fst (columns df))"
    unfolding names_setitem by (auto simp: has_column_def)
  then show ?thesis by (simp only: has_column_def)
qed

lemma rows_setitem [simp]: "rows (setitem n c df) = rows df"
  by (simp add: setitem_def)

lemma has_column_merge_step [simp]:
  "has_column n (dataframe (snd (merge_step ls self))) = has_column n (dataframe self)"
  by (simp add: has_column_def merge_step_columns)

lemma has_column_print [simp]: "has_column n (dataframe (print m self)) = has_column n (dataframe self)"
  by (simp add: print_def)

lemma GetOneHotEndpoint_cases:
  obtains
    (skip) "\<not> 1 < length (fst (merge_step ls self))"
  | (encode) "1 < length (fst (merge_step ls self))"
      "\<forall>r\<in>set (rows (dataframe (snd (merge_step ls self)))).
          endpoint r = ''EC50'' \<or> endpoint r = ''EC10''"
  | (raise) "1 < length (fst (merge_step ls self))"
      "\<exists>r\<in>set (rows (dataframe (snd (merge_step ls self)))).
          endpoint r \<noteq> ''EC50'' \<and> endpoint r \<noteq> ''EC10''"
  by blast

lemma GetOneHotEffect_cases:
  obtains
    (skip) "\<not> 1 < length es"
  | (encode) "1 < length es" "\<forall>r\<in>set (rows (dataframe self)). effect r \<in> set es"
  | (raise) "1 < length es" "\<exists>r\<in>set (rows (dataframe self)). effect r \<notin> set es"
  by blast

lemma GetOneHotEndpoint_labels:
  "fst (snd (GetOneHotEndpoint ls self)) = fst (merge_step ls self)"
  by (rule GetOneHotEndpoint_cases [where ls = ls and self = self])
     (simp_all add: GetOneHotEndpoint_skip GetOneHotEndpoint_encode GetOneHotEndpoint_raise)

lemma GetOneHotEndpoint_self_rows:
  "rows (dataframe (snd (snd (GetOneHotEndpoint ls self)))) =
     rows (dataframe (snd (merge_step ls self)))"
  by (rule GetOneHotEndpoint_cases [where ls = ls and self = self])
     (simp_all add: GetOneHotEndpoint_skip GetOneHotEndpoint_encode GetOneHotEndpoint_raise
        print_def)

lemma GetOneHotEndpoint_stdout:
  "take (length (stdout (snd (merge_step ls self)))) (stdout (snd (snd (GetOneHotEndpoint ls self)))) =
     stdout (snd (merge_step ls self))"
  by (rule GetOneHotEndpoint_cases [where ls = ls and self = self])
     (simp_all add: GetOneHotEndpoint_skip GetOneHotEndpoint_encode GetOneHotEndpoint_raise
        print_def)

lemma GetOneHotEndpoint_result_rows:
  "fst (GetOneHotEndpoint ls self) = Inr df \<Longrightarrow>
     rows df = rows (dataframe (snd (merge_step ls self)))"
  by (rule GetOneHotEndpoint_cases [where ls = ls and self = self])
     (auto simp: GetOneHotEndpoint_skip GetOneHotEndpoint_encode GetOneHotEndpoint_raise
        print_def)

lemma GetOneHotEndpoint_self_dataframe:
  "fst (GetOneHotEndpoint ls self) = Inr df \<Longrightarrow>
     dataframe (snd (snd (GetOneHotEndpoint ls self))) = df"
  by (rule GetOneHotEndpoint_cases [where ls = ls and self = self])
     (auto simp: GetOneHotEndpoint_skip GetOneHotEndpoint_encode GetOneHotEndpoint_raise
        print_def)

lemma GetOneHotEnc_endpoint_raises:
  "fst (GetOneHotEndpoint ls self) = Inl e \<Longrightarrow> 
     GetOneHotEnc ls es self = (Inl e, snd (GetOneHotEndpoint ls self))"
  by (cases "GetOneHotEndpoint ls self") (auto simp: GetOneHotEnc_def)

lemma GetOneHotEnc_labels:
  "fst (snd (GetOneHotEnc ls es self)) = fst (snd (GetOneHotEndpoint ls self))"
  by (auto simp: GetOneHotEnc_def Let_def split: prod.splits sum.splits)

lemma GetOneHotEnc_effect_raises:
  "fst (GetOneHotEndpoint ls self) = Inr df1 \<Longrightarrow>
   fst (GetOneHotEffect es (snd (snd (GetOneHotEndpoint ls self)))) = Inl e \<Longrightarrow>
     fst (GetOneHotEnc ls es self) = Inl e"
  using GetOneHotEndpoint_self_dataframe [of ls self df1]
  by (cases "GetOneHotEndpoint ls self")
     (auto simp: GetOneHotEnc_def split: prod.splits sum.splits)

lemma count_list_remove1:
  "count_list (remove1 x xs) x = count_list xs x - 1"
  by (induction xs) auto

lemma remove1_single: "count_list xs x \<le> 1 \<Longrightarrow> x \<notin> set (remove1 x xs)"
  by (induction xs) (auto simp: count_list_0_iff)

lemma merge_step_depends:
  "set ls = set ls' \<Longrightarrow> length ls = length ls' \<Longrightarrow>
     length (fst (merge_step ls self)) = length (fst (merge_step ls' self)) \<and>
     snd (merge_step ls self) = snd (merge_step ls' self)"
  by (auto simp: merge_step_def length_remove1)

lemma GetOneHotEndpoint_reorder:
  assumes "set ls = set ls'" and "length ls = length ls'"
  shows "fst (GetOneHotEndpoint ls self) = fst (GetOneHotEndpoint ls' self)"
  using merge_step_depends [OF assms, of self]
  by (simp add: GetOneHotEndpoint_def Let_def split_beta split: sum.splits)

lemma merge_step_effects:
  "map effect (rows (dataframe (snd (merge_step ls self)))) = map effect (rows (dataframe self))"
  by (simp add: merge_step_rows rename_NOEC_def comp_def)

lemma GetOneHotEnc_effect_raise:
  assumes "GetOneHotEndpoint ls self = (Inr df1, labels, self1)"
    and "GetOneHotEffect es (self1\<lparr>dataframe := df1\<rparr>) = (Inl e, self2)"
  shows "GetOneHotEnc ls es self = (Inl e, labels, self2)"
  using assms by (simp add: GetOneHotEnc_def)

lemma concat_BatchSampler: "concat (BatchSampler b batch sampler) = batch @ sampler"
  by (induction sampler arbitrary: batch) (auto simp: Let_def)

lemma BatchSampler_full:
  "0 < b \<Longrightarrow> length batch < b \<Longrightarrow> Suc k < length (BatchSampler b batch sampler)
     \<Longrightarrow> length (BatchSampler b batch sampler ! k) = b"
proof (induction sampler arbitrary: batch k)
  case Nil
  then show ?case by (simp split: if_splits)
next
  case (Cons idx sampler)
  show ?case
  proof (cases "length (batch @ [idx]) = b")
    case True
    with Cons.prems Cons.IH [of "[]" "k - 1"] show ?thesis
      by (cases k) (auto simp: Let_def)
  next
    case False
    with Cons.prems have "length (batch @ [idx]) < b" by simp
    with False Cons.prems Cons.IH [of "batch @ [idx]" k] show ?thesis
      by (simp add: Let_def)
  qed
qed

lemma BatchSampler_last:
  "0 < b \<Longrightarrow> length batch < b \<Longrightarrow> BatchSampler b batch sampler \<noteq> []
     \<Longrightarrow> last (BatchSampler b batch sampler) \<noteq> [] \<and>
         length (last (BatchSampler b batch sampler)) \<le> b"
proof (induction sampler arbitrary: batch)
  case Nil
  then show ?case by (simp split: if_splits)
next
  case (Cons idx sampler)
  show ?case
  proof (cases "length (batch @ [idx]) = b")
    case True
    with Cons.prems Cons.IH [of "[]"] show ?thesis
      by (auto simp: Let_def)
  next
    case False
    with Cons.prems have "length (batch @ [idx]) < b" by simp
    with False Cons.prems Cons.IH [of "batch @ [idx]"] show ?thesis
      by (simp add: Let_def)
  qed
qed

text \<open>The equations that evaluate the dataset and the loader on a given table.\<close>

lemmas loader_eval =
  dataloader_samples_def DataLoader_index_batches_def SequentialSampler_def
  Inference_dataset_getitem_def iloc_getitem_def list_getitem_def and_then_def
  torch_tensor_def toy_tokenizer_def Let_def

lemma concat_onehot_none: "columns df = [] \<Longrightarrow> concat_onehot df = Inl IndexError"
  by (simp add: concat_onehot_def filter_like_def list_getitem_def)

lemma concat_onehot_one:
  assumes "columns df = [(name, NdArrays v)]" and "contains name ''OneHotEnc''"
    and "length v = length (rows df)"
  shows "concat_onehot df = Inr v"
  using assms
  by (simp add: concat_onehot_def filter_like_def list_getitem_def cells_tolist_def
      concat_step_def)

lemma concat_onehot_two:
  assumes "columns df = [(''OneHotEnc_endpoint'', NdArrays ev), (''OneHotEnc_effect'', NdArrays fv)]"
    and "length ev = length (rows df)" and "length fv = length (rows df)"
  shows "concat_onehot df = Inr (map2 (@) ev fv)"
proof (cases "rows df = []")
  case True
  with assms(2,3) have "ev = []" "fv = []" by simp_all
  with assms True show ?thesis
    by (simp add: concat_onehot_def filter_like_def list_getitem_def cells_tolist_def
        concat_step_def concatenate_axis1_def)
next
  case False
  with assms(2,3) have "ev \<noteq> []" "fv \<noteq> []" by auto
  with assms show ?thesis
    by (simp add: concat_onehot_def filter_like_def list_getitem_def cells_tolist_def
        concat_step_def concatenate_axis1_def)
qed

lemma columns_setitem_new:
  "\<not> has_column n df \<Longrightarrow> columns (setitem n c df) = columns df @ [(n, c)]"
  by (simp add: setitem_def)

lemma GetOneHotEndpoint_result_columns:
  assumes "fst (GetOneHotEndpoint ls self) = Inr df1" and "columns (dataframe self) = []"
  shows "columns df1 =
           (if 1 < length (fst (merge_step ls self))
            then [(''OneHotEnc_endpoint'',
                   NdArrays (map (\<lambda>r. if endpoint r = ''EC50'' then [1, 0] else [0, 1]) (rows df1)))]
            else [])"
proof (rule GetOneHotEndpoint_cases [where ls = ls and self = self])
  assume "\<not> 1 < length (fst (merge_step ls self))"
  with assms show ?thesis
    by (auto simp: GetOneHotEndpoint_skip merge_step_columns print_def)
next
  assume "1 < length (fst (merge_step ls self))"
    "\<forall>r\<in>set (rows (dataframe (snd (merge_step ls self)))).
        endpoint r = ''EC50'' \<or> endpoint r = ''EC10''"
  with assms show ?thesis
    by (auto simp: GetOneHotEndpoint_encode columns_setitem_new has_column_def merge_step_columns)
next
  assume "1 < length (fst (merge_step ls self))"
    "\<exists>r\<in>set (rows (dataframe (snd (merge_step ls self)))).
        endpoint r \<noteq> ''EC50'' \<and> endpoint r \<noteq> ''EC10''"
  with assms show ?thesis
    by (simp add: GetOneHotEndpoint_raise)
qed

lemma GetOneHotEffect_result:
  assumes "fst (GetOneHotEffect es self) = Inr df2"
  shows "snd (GetOneHotEffect es self) =
           (if 1 < length es then self\<lparr>dataframe := df2\<rparr> else print No_onehot_for_Effect self) \<and>
         df2 = (if 1 < length es
                then setitem ''OneHotEnc_effect''
                       (NdArrays (map (\<lambda>r. the (dict_zip es (eye (length es)) (effect r)))
                                    (rows (dataframe self))))
                       (dataframe self)
                else dataframe self) \<and>
         (1 < length es \<longrightarrow> (\<forall>r\<in>set (rows (dataframe self)). effect r \<in> set es))"
proof (rule GetOneHotEffect_cases [where es = es and self = self])
  assume "\<not> 1 < length es"
  with assms show ?thesis by (auto simp: GetOneHotEffect_skip print_def)
next
  assume "1 < length es" "\<forall>r\<in>set (rows (dataframe self)). effect r \<in> set es"
  with assms show ?thesis by (auto simp: GetOneHotEffect_encode)
next
  assume "1 < length es" "\<exists>r\<in>set (rows (dataframe self)). effect r \<notin> set es"
  with assms show ?thesis by (simp add: GetOneHotEffect_raise)
qed

lemma GetOneHotEnc_returns:
  assumes "fst (GetOneHotEnc ls es self) = Inr df"
  obtains df1 df2 where
    "fst (GetOneHotEndpoint ls self) = Inr df1"
    "fst (GetOneHotEffect es (snd (snd (GetOneHotEndpoint ls self)))) = Inr df2"
    "df = (case concat_onehot df2 of
             Inr temp1 \<Rightarrow> setitem ''OneHotEnc_concatenated'' (Lists temp1) df2
           | Inl e \<Rightarrow> setitem ''OneHotEnc_concatenated''
                       (Lists (replicate (length (rows df2)) [0])) df2)"
proof -
  obtain r1 labels self1 where g1: "GetOneHotEndpoint ls self = (r1, labels, self1)"
    by (cases "GetOneHotEndpoint ls self") auto
  with assms obtain df1 where r1: "r1 = Inr df1"
    by (cases r1) (auto simp: GetOneHotEnc_def)
  have s1: "self1\<lparr>dataframe := df1\<rparr> = self1"
    using GetOneHotEndpoint_self_dataframe [of ls self df1] g1 r1 by simp
  obtain r2 self2 where g2: "GetOneHotEffect es self1 = (r2, self2)"
    by (cases "GetOneHotEffect es self1") auto
  with assms g1 r1 s1 obtain df2 where r2: "r2 = Inr df2"
    by (cases r2) (auto simp: GetOneHotEnc_def)
  have "df = (case concat_onehot df2 of
             Inr temp1 \<Rightarrow> setitem ''OneHotEnc_concatenated'' (Lists temp1) df2
           | Inl e \<Rightarrow> setitem ''OneHotEnc_concatenated''
                       (Lists (replicate (length (rows df2)) [0])) df2)"
    using assms g1 r1 s1 g2 r2
    by (auto simp: GetOneHotEnc_def Let_def print_def split: sum.splits)
  with g1 r1 g2 r2 that show thesis by simp
qed


lemma dict_zip_ran:
  "length ks = length vs \<Longrightarrow> dict_zip ks vs x = Some v \<Longrightarrow> v \<in> set vs"
proof (induction ks arbitrary: vs rule: rev_induct)
  case Nil
  then show ?case by (simp add: dict_zip_def)
next
  case (snoc k ks)
  then obtain vs' v' where vs: "vs = vs' @ [v']" "length ks = length vs'"
    by (cases vs rule: rev_cases) auto
  with snoc show ?case
    by (auto simp: dict_zip_snoc split: if_splits)
qed

lemma length_eye_row: "v \<in> set (eye n) \<Longrightarrow> length v = n"
  by (auto simp: eye_def)

lemma length_hot_enc_effect:
  assumes "x \<in> set es"
  shows "length (the (dict_zip es (eye (length es)) x)) = length es"
proof -
  have "x \<in> dom (dict_zip es (eye (length es)))"
    using assms by (simp add: dict_zip_dom length_eye)
  then obtain v where v: "dict_zip es (eye (length es)) x = Some v"
    by auto
  then have "v \<in> set (eye (length es))"
    by (rule dict_zip_ran [rotated]) (simp add: length_eye)
  with v show ?thesis
    by (simp add: length_eye_row)
qed

lemma GetOneHotEnc_structure:
  assumes c: "columns (dataframe self) = []" and r: "fst (GetOneHotEnc ls es self) = Inr df"
  shows "\<exists>ev fv.
           length ev = length (rows df) \<and> length fv = length (rows df) \<and>
           (\<forall>v\<in>set ev. length v = 2) \<and>
           (1 < length es \<longrightarrow> (\<forall>v\<in>set fv. length v = length es)) \<and>
           columns df =
             (if 1 < length (fst (merge_step ls self))
              then [(''OneHotEnc_endpoint'', NdArrays ev)] else []) @
             (if 1 < length es then [(''OneHotEnc_effect'', NdArrays fv)] else []) @
             [(''OneHotEnc_concatenated'',
               Lists (if 1 < length (fst (merge_step ls self))
                      then (if 1 < length es then map2 (@) ev fv else ev)
                      else (if 1 < length es then fv
                            else replicate (length (rows df)) [0])))]"
proof -
  from r obtain df1 df2 where
    g1: "fst (GetOneHotEndpoint ls self) = Inr df1" and
    g2: "fst (GetOneHotEffect es (snd (snd (GetOneHotEndpoint ls self)))) = Inr df2" and
    d: "df = (case concat_onehot df2 of
             Inr temp1 \<Rightarrow> setitem ''OneHotEnc_concatenated'' (Lists temp1) df2
           | Inl e \<Rightarrow> setitem ''OneHotEnc_concatenated''
                       (Lists (replicate (length (rows df2)) [0])) df2)"
    by (rule GetOneHotEnc_returns)
  let ?self1 = "snd (snd (GetOneHotEndpoint ls self))"
  let ?E = "1 < length (fst (merge_step ls self))"
  let ?F = "1 < length es"
  let ?ev = "map (\<lambda>r. if endpoint r = ''EC50'' then [1, 0] else [0, 1]) (rows df1)"
  let ?fv = "map (\<lambda>r. the (dict_zip es (eye (length es)) (effect r))) (rows df1)"
  have s1: "dataframe ?self1 = df1"
    using g1 by (rule GetOneHotEndpoint_self_dataframe)
  have c1: "columns df1 = (if ?E then [(''OneHotEnc_endpoint'', NdArrays ?ev)] else [])"
    using g1 c by (rule GetOneHotEndpoint_result_columns)
  have e2: "df2 = (if ?F then setitem ''OneHotEnc_effect'' (NdArrays ?fv) df1 else df1)"
    and m2: "?F \<longrightarrow> (\<forall>r\<in>set (rows df1). effect r \<in> set es)"
    using GetOneHotEffect_result [OF g2] by (simp_all add: s1)
  have nF: "\<not> has_column ''OneHotEnc_effect'' df1"
    by (auto simp: has_column_def c1)
  have r2: "rows df2 = rows df1"
    by (simp add: e2)
  have c2: "columns df2 =
              (if ?E then [(''OneHotEnc_endpoint'', NdArrays ?ev)] else []) @
              (if ?F then [(''OneHotEnc_effect'', NdArrays ?fv)] else [])"
    using nF by (simp add: e2 c1 columns_setitem_new)
  have nC: "\<not> has_column ''OneHotEnc_concatenated'' df2"
    by (auto simp: has_column_def c2)
  have k: "concat_onehot df2 =
             (if ?E then (if ?F then Inr (map2 (@) ?ev ?fv) else Inr ?ev)
              else (if ?F then Inr ?fv else Inl IndexError))"
  proof (cases ?E)
    case E: True
    show ?thesis
    proof (cases ?F)
      case True
      with E show ?thesis
        by (simp add: concat_onehot_two [of df2 ?ev ?fv] c2 r2)
    next
      case False
      with E show ?thesis
        by (simp add: concat_onehot_one [of df2 "''OneHotEnc_endpoint''" ?ev] c2 r2)
    qed
  next
    case E: False
    show ?thesis
    proof (cases ?F)
      case True
      with E show ?thesis
        by (simp add: concat_onehot_one [of df2 "''OneHotEnc_effect''" ?fv] c2 r2)
    next
      case False
      with E show ?thesis
        by (simp add: concat_onehot_none c2)
    qed
  qed
  have rd: "rows df = rows df1"
    by (simp add: d r2 split: sum.splits)
  have cd: "columns df =
      (if ?E then [(''OneHotEnc_endpoint'', NdArrays ?ev)] else []) @
      (if ?F then [(''OneHotEnc_effect'', NdArrays ?fv)] else []) @
      [(''OneHotEnc_concatenated'',
        Lists (if ?E then (if ?F then map2 (@) ?ev ?fv else ?ev)
               else (if ?F then ?fv else replicate (length (rows df)) [0])))]"
    using nC by (simp add: d k columns_setitem_new c2 rd r2)
  have l1: "length ?ev = length (rows df)" "length ?fv = length (rows df)"
    by (simp_all add: rd)
  have l2: "\<forall>v\<in>set ?ev. length v = 2"
    by auto
  have l3: "?F \<longrightarrow> (\<forall>v\<in>set ?fv. length v = length es)"
    using m2 by (auto simp: length_hot_enc_effect)
  show ?thesis
    using l1 l2 l3 cd by (intro exI [of _ ?ev] exI [of _ ?fv] conjI)
qed

lemma getitem_onehotenc:
  assumes "map_of (columns df) ''OneHotEnc_concatenated'' = Some (Lists comb)"
    and "Inference_dataset_getitem tokenizer df [v0, v1, ''OneHotEnc_concatenated''] max_len idx = Inr s"
  shows "idx < length comb \<and> onehotenc s = Vector (map real_of_int (comb ! idx))"
  using assms
  by (auto simp: Inference_dataset_getitem_def and_then_def list_getitem_def iloc_getitem_def
      torch_tensor_def Let_def split: sum.splits if_splits prod.splits)

text \<open>The equations that evaluate the encoders on a given table.\<close>

lemmas encoder_eval =
  GetOneHotEndpoint_def GetOneHotEffect_def merge_step_def PreProcessDataForInference_def
  DataFrame_def print_def rename_NOEC_def count_NOEC_def dict_zip_def dict_getitem_def
  eye_def setitem_def has_column_def Let_def

text \<open>The equations that evaluate the assembler on a given table.\<close>

lemmas assembler_eval =
  GetOneHotEnc_def concat_onehot_def filter_like_def list_getitem_def cells_tolist_def
  concat_step_def concatenate_axis1_def

section \<open>The claims\<close>

subsection \<open>C1: when a one-hot column is added\<close>

text \<open>
  C1 says that a one-hot column is added only when the values present in the rows of
  the table are more than one, whatever labels the caller declared. The encoders never
  look at the values present: the test is on the length of the declared label list. A
  table whose rows all read \<^verbatim>\<open>EC50\<close> gets an endpoint column as soon as two labels
  are declared.
\<close>

theorem single_endpoint_table_gets_column:
  "set (map endpoint [row_EC50, row_EC50]) = {''EC50''} \<and>
   fst (GetOneHotEndpoint [''EC50'', ''EC10'']
          (PreProcessDataForInference (DataFrame [row_EC50, row_EC50]))) =
     Inr \<lparr>rows = [row_EC50, row_EC50],
          columns = [(''OneHotEnc_endpoint'', NdArrays [[1, 0], [1, 0]])],
          SMILES_Canonical_RDKit = None\<rparr>"
  by (simp add: encoder_eval row_EC50_def)

text \<open>
  C1, amended: \<^verbatim>\<open>__GetOneHotEndpoint\<close> (resp. \<^verbatim>\<open>__GetOneHotEffect\<close>), when it
  returns, has added its one-hot column exactly when the working label list (the declared
  endpoint list, less one \<^verbatim>\<open>NOEC\<close> when \<^verbatim>\<open>EC10\<close> is declared; the declared effect
  list) has more than one entry. On a table where every row reads \<^verbatim>\<open>EC50\<close> the endpoint
  encoder always returns, so such a table gets no column exactly when at most one working
  label was declared.
\<close>

theorem onehot_column_iff_declared_labels:
  "(\<forall>df. fst (GetOneHotEndpoint ls self) = Inr df \<and> \<not> has_column ''OneHotEnc_endpoint'' (dataframe self)
      \<longrightarrow> (has_column ''OneHotEnc_endpoint'' df
            \<longleftrightarrow> 1 < length (if ''EC10'' \<in> set ls then remove1 ''NOEC'' ls else ls)))
   \<and> (\<forall>df. fst (GetOneHotEffect es self) = Inr df \<and> \<not> has_column ''OneHotEnc_effect'' (dataframe self)
      \<longrightarrow> (has_column ''OneHotEnc_effect'' df \<longleftrightarrow> 1 < length es))
   \<and> ((\<forall>r\<in>set (rows (dataframe self)). endpoint r = ''EC50'')
      \<longrightarrow> (\<exists>df. fst (GetOneHotEndpoint ls self) = Inr df))"
proof (intro conjI allI impI)
  fix df
  assume a: "fst (GetOneHotEndpoint ls self) = Inr df \<and> \<not> has_column ''OneHotEnc_endpoint'' (dataframe self)"
  show "has_column ''OneHotEnc_endpoint'' df
          \<longleftrightarrow> 1 < length (if ''EC10'' \<in> set ls then remove1 ''NOEC'' ls else ls)"
  proof (rule GetOneHotEndpoint_cases [where ls = ls and self = self])
    assume skip: "\<not> 1 < length (fst (merge_step ls self))"
    with a show ?thesis
      by (auto simp: GetOneHotEndpoint_skip merge_step_labels)
  next
    assume encode: "1 < length (fst (merge_step ls self))"
      "\<forall>r\<in>set (rows (dataframe (snd (merge_step ls self)))).
          endpoint r = ''EC50'' \<or> endpoint r = ''EC10''"
    with a show ?thesis
      by (auto simp: GetOneHotEndpoint_encode merge_step_labels)
  next
    assume raise: "1 < length (fst (merge_step ls self))"
      "\<exists>r\<in>set (rows (dataframe (snd (merge_step ls self)))).
          endpoint r \<noteq> ''EC50'' \<and> endpoint r \<noteq> ''EC10''"
    with a show ?thesis
      by (simp add: GetOneHotEndpoint_raise)
  qed
next
  fix df
  assume a: "fst (GetOneHotEffect es self) = Inr df \<and> \<not> has_column ''OneHotEnc_effect'' (dataframe self)"
  show "has_column ''OneHotEnc_effect'' df \<longleftrightarrow> 1 < length es"
  proof (rule GetOneHotEffect_cases [where es = es and self = self])
    assume skip: "\<not> 1 < length es"
    with a show ?thesis by (auto simp: GetOneHotEffect_skip)
  next
    assume encode: "1 < length es" "\<forall>r\<in>set (rows (dataframe self)). effect r \<in> set es"
    with a show ?thesis by (auto simp: GetOneHotEffect_encode)
  next
    assume raise: "1 < length es" "\<exists>r\<in>set (rows (dataframe self)). effect r \<notin> set es"
    with a show ?thesis by (simp add: GetOneHotEffect_raise)
  qed
next
  assume a: "\<forall>r\<in>set (rows (dataframe self)). endpoint r = ''EC50''"
  then have b: "\<forall>r\<in>set (rows (dataframe (snd (merge_step ls self)))).
                  endpoint r = ''EC50'' \<or> endpoint r = ''EC10''"
    by (auto simp: merge_step_rows rename_NOEC_def)
  show "\<exists>df. fst (GetOneHotEndpoint ls self) = Inr df"
  proof (cases "1 < length (fst (merge_step ls self))")
    case True
    with b show ?thesis by (simp add: GetOneHotEndpoint_encode)
  next
    case False
    then show ?thesis by (simp add: GetOneHotEndpoint_skip)
  qed
qed

text \<open>
  The amended C1 at a table of two \<^verbatim>\<open>EC50\<close> rows: one declared endpoint gives no
  column, two declared effects give a column.
\<close>

theorem onehot_column_iff_declared_labels_witness:
  "endpoint row_EC50 = ''EC50'' \<and>
   \<not> has_column ''OneHotEnc_endpoint'' (DataFrame [row_EC50, row_EC50]) \<and>
   \<not> has_column ''OneHotEnc_effect'' (DataFrame [row_EC50, row_EC50]) \<and>
   fst (GetOneHotEndpoint [''EC50'']
          (PreProcessDataForInference (DataFrame [row_EC50, row_EC50]))) =
     Inr (DataFrame [row_EC50, row_EC50]) \<and>
   fst (GetOneHotEffect [''MOR'', ''DVP'']
          (PreProcessDataForInference (DataFrame [row_EC50, row_EC50]))) =
     Inr \<lparr>rows = [row_EC50, row_EC50],
          columns = [(''OneHotEnc_effect'', NdArrays [[1, 0], [1, 0]])],
          SMILES_Canonical_RDKit = None\<rparr> \<and>
   has_column ''OneHotEnc_effect''
     \<lparr>rows = [row_EC50, row_EC50],
      columns = [(''OneHotEnc_effect'', NdArrays [[1, 0], [1, 0]])],
      SMILES_Canonical_RDKit = None\<rparr>"
  using onehot_column_iff_declared_labels
    [of "[''EC50'']" "PreProcessDataForInference (DataFrame [row_EC50, row_EC50])"
        "[''MOR'', ''DVP'']"]
  by (simp add: encoder_eval row_EC50_def)

subsection \<open>C2: the merge of NOEC into EC10\<close>

text \<open>
  C2 says that \<^verbatim>\<open>NOEC\<close> is removed from the working label list when the list holds
  \<^verbatim>\<open>EC10\<close>. \<^verbatim>\<open>list.remove\<close> takes out the first occurrence only: for a table
  with a \<^verbatim>\<open>NOEC\<close> row and the labels \<^verbatim>\<open>['EC50', 'EC10', 'NOEC', 'NOEC']\<close>, the
  working list after the merge step still holds \<^verbatim>\<open>NOEC\<close>.
\<close>

theorem merge_keeps_later_NOEC:
  "''EC10'' \<in> set [''EC50'', ''EC10'', ''NOEC'', ''NOEC''] \<and>
   endpoint row_NOEC = ''NOEC'' \<and>
   fst (merge_step [''EC50'', ''EC10'', ''NOEC'', ''NOEC'']
          (PreProcessDataForInference (DataFrame [row_NOEC]))) =
     [''EC50'', ''EC10'', ''NOEC''] \<and>
   fst (snd (GetOneHotEndpoint [''EC50'', ''EC10'', ''NOEC'', ''NOEC'']
               (PreProcessDataForInference (DataFrame [row_NOEC])))) =
     [''EC50'', ''EC10'', ''NOEC'']"
  by (simp add: encoder_eval row_NOEC_def)

text \<open>
  C2, amended: when \<^verbatim>\<open>EC10\<close> is among the declared endpoint labels, after
  \<^verbatim>\<open>__GetOneHotEndpoint\<close> every row that read \<^verbatim>\<open>NOEC\<close> reads \<^verbatim>\<open>EC10\<close> (the
  other rows are as they were), the count printed by the merge step is the number of rows
  that read \<^verbatim>\<open>NOEC\<close> before it, and the first occurrence of \<^verbatim>\<open>NOEC\<close> has been
  removed from the label list: the list holds one \<^verbatim>\<open>NOEC\<close> fewer, and none when it
  held at most one.
\<close>

theorem NOEC_rows_merged_into_EC10:
  assumes "''EC10'' \<in> set ls"
  shows "length (rows (dataframe (snd (snd (GetOneHotEndpoint ls self))))) =
           length (rows (dataframe self)) \<and>
         (\<forall>i<length (rows (dataframe self)).
            (endpoint (rows (dataframe self) ! i) = ''NOEC'' \<longrightarrow>
               endpoint (rows (dataframe (snd (snd (GetOneHotEndpoint ls self)))) ! i) = ''EC10'') \<and>
            (endpoint (rows (dataframe self) ! i) \<noteq> ''NOEC'' \<longrightarrow>
               rows (dataframe (snd (snd (GetOneHotEndpoint ls self)))) ! i =
               rows (dataframe self) ! i)) \<and>
         take (Suc (length (stdout self))) (stdout (snd (snd (GetOneHotEndpoint ls self)))) =
           stdout self @
           [Renamed_NOEC (card {i. i < length (rows (dataframe self)) \<and>
                                   endpoint (rows (dataframe self) ! i) = ''NOEC''})] \<and>
         fst (snd (GetOneHotEndpoint ls self)) = remove1 ''NOEC'' ls \<and>
         count_list (fst (snd (GetOneHotEndpoint ls self))) ''NOEC'' =
           count_list ls ''NOEC'' - 1 \<and>
         (count_list ls ''NOEC'' \<le> 1 \<longrightarrow>
            ''NOEC'' \<notin> set (fst (snd (GetOneHotEndpoint ls self))))"
proof -
  let ?self' = "snd (snd (GetOneHotEndpoint ls self))"
  have rows': "rows (dataframe ?self') = rows (rename_NOEC (dataframe self))"
    using assms by (simp add: GetOneHotEndpoint_self_rows merge_step_rows)
  have out: "stdout (snd (merge_step ls self)) =
               stdout self @ [Renamed_NOEC (count_NOEC (dataframe self))]"
    using assms by (simp add: merge_step_def print_def)
  have count: "count_NOEC (dataframe self) =
                 card {i. i < length (rows (dataframe self)) \<and>
                          endpoint (rows (dataframe self) ! i) = ''NOEC''}"
    by (simp add: count_NOEC_def length_filter_conv_card)
  have "take (Suc (length (stdout self))) (stdout ?self') =
          stdout self @ [Renamed_NOEC (count_NOEC (dataframe self))]"
    using GetOneHotEndpoint_stdout [of ls self] by (simp add: out)
  moreover have "fst (snd (GetOneHotEndpoint ls self)) = remove1 ''NOEC'' ls"
    using assms by (simp add: GetOneHotEndpoint_labels merge_step_labels)
  ultimately show ?thesis
    by (simp add: rows' rename_NOEC_def count count_list_remove1 remove1_single)
qed


text \<open>
  The amended C2 at a table of one \<^verbatim>\<open>EC50\<close> row and two \<^verbatim>\<open>NOEC\<close> rows, with the labels
  \<^verbatim>\<open>['EC50', 'EC10', 'NOEC']\<close>.
\<close>

theorem NOEC_rows_merged_into_EC10_witness:
  "''EC10'' \<in> set [''EC50'', ''EC10'', ''NOEC''] \<and>
   map endpoint [row_EC50, row_NOEC, row_NOEC] = [''EC50'', ''NOEC'', ''NOEC''] \<and>
   map endpoint
     (rows (dataframe (snd (snd (GetOneHotEndpoint [''EC50'', ''EC10'', ''NOEC'']
        (PreProcessDataForInference (DataFrame [row_EC50, row_NOEC, row_NOEC]))))))) =
     [''EC50'', ''EC10'', ''EC10''] \<and>
   stdout (snd (snd (GetOneHotEndpoint [''EC50'', ''EC10'', ''NOEC'']
        (PreProcessDataForInference (DataFrame [row_EC50, row_NOEC, row_NOEC]))))) =
     [Renamed_NOEC 2] \<and>
   fst (snd (GetOneHotEndpoint [''EC50'', ''EC10'', ''NOEC'']
        (PreProcessDataForInference (DataFrame [row_EC50, row_NOEC, row_NOEC])))) =
     [''EC50'', ''EC10''] \<and>
   count_list [''EC50'', ''EC10'', ''NOEC''] ''NOEC'' = 1 \<and>
   ''NOEC'' \<notin> set (fst (snd (GetOneHotEndpoint [''EC50'', ''EC10'', ''NOEC'']
        (PreProcessDataForInference (DataFrame [row_EC50, row_NOEC, row_NOEC])))))"
  using NOEC_rows_merged_into_EC10
    [of "[''EC50'', ''EC10'', ''NOEC'']"
        "PreProcessDataForInference (DataFrame [row_EC50, row_NOEC, row_NOEC])"]
  by (simp add: encoder_eval row_EC50_def row_NOEC_def)

subsection \<open>C10: the caller's list of endpoint labels\<close>

text \<open>
  C10 says that a list holding \<^verbatim>\<open>EC10\<close> and \<^verbatim>\<open>NOEC\<close> no longer holds
  \<^verbatim>\<open>NOEC\<close> after the call. \<^verbatim>\<open>list.remove\<close> takes out one occurrence: of two,
  the second stays.
\<close>

theorem second_NOEC_stays_in_list:
  "fst (snd (GetOneHotEndpoint [''EC10'', ''NOEC'', ''NOEC'']
               (PreProcessDataForInference (DataFrame [row_EC50])))) = [''EC10'', ''NOEC'']"
  by (simp add: encoder_eval row_EC50_def)

text \<open>
  C10, amended: \<^verbatim>\<open>__GetOneHotEndpoint\<close>, and with it \<^verbatim>\<open>GetOneHotEnc\<close>, leaves
  the caller's list without its first \<^verbatim>\<open>NOEC\<close> when the list holds \<^verbatim>\<open>EC10\<close>:
  one occurrence fewer, and none when the list held at most one. A list without
  \<^verbatim>\<open>EC10\<close> is left as it was.
\<close>

theorem endpoint_list_mutated_in_place:
  "fst (snd (GetOneHotEndpoint ls self)) =
     (if ''EC10'' \<in> set ls then remove1 ''NOEC'' ls else ls) \<and>
   fst (snd (GetOneHotEnc ls es self)) = fst (snd (GetOneHotEndpoint ls self)) \<and>
   (''EC10'' \<in> set ls \<longrightarrow>
      count_list (fst (snd (GetOneHotEndpoint ls self))) ''NOEC'' = count_list ls ''NOEC'' - 1) \<and>
   (''EC10'' \<in> set ls \<and> count_list ls ''NOEC'' \<le> 1 \<longrightarrow>
      ''NOEC'' \<notin> set (fst (snd (GetOneHotEndpoint ls self)))) \<and>
   (''EC10'' \<notin> set ls \<longrightarrow> fst (snd (GetOneHotEndpoint ls self)) = ls)"
  by (simp add: GetOneHotEndpoint_labels GetOneHotEnc_labels merge_step_labels
      count_list_remove1 remove1_single)

text \<open>
  The amended C10 at the lists \<^verbatim>\<open>['EC50', 'EC10', 'NOEC']\<close> and
  \<^verbatim>\<open>['EC50', 'NOEC']\<close>.
\<close>

theorem endpoint_list_mutated_in_place_witness:
  "''EC10'' \<in> set [''EC50'', ''EC10'', ''NOEC''] \<and>
   count_list [''EC50'', ''EC10'', ''NOEC''] ''NOEC'' = 1 \<and>
   fst (snd (GetOneHotEnc [''EC50'', ''EC10'', ''NOEC''] [''MOR'']
               (PreProcessDataForInference (DataFrame [row_EC50])))) = [''EC50'', ''EC10''] \<and>
   ''NOEC'' \<notin> set (fst (snd (GetOneHotEndpoint [''EC50'', ''EC10'', ''NOEC'']
               (PreProcessDataForInference (DataFrame [row_EC50]))))) \<and>
   ''EC10'' \<notin> set [''EC50'', ''NOEC''] \<and>
   fst (snd (GetOneHotEndpoint [''EC50'', ''NOEC'']
               (PreProcessDataForInference (DataFrame [row_EC50])))) = [''EC50'', ''NOEC'']"
  using endpoint_list_mutated_in_place
    [of "[''EC50'', ''EC10'', ''NOEC'']" "PreProcessDataForInference (DataFrame [row_EC50])"
        "[''MOR'']"]
    endpoint_list_mutated_in_place
    [of "[''EC50'', ''NOEC'']" "PreProcessDataForInference (DataFrame [row_EC50])" "[''MOR'']"]
  by (simp add: encoder_eval row_EC50_def)

subsection \<open>C3: the positions of the indicator vectors\<close>

text \<open>
  C3 says that every table whose endpoints are \<^verbatim>\<open>EC50\<close> and \<^verbatim>\<open>EC10\<close> gets the
  two-wide column. The column is built only when the working label list has more than
  one entry: with the labels \<^verbatim>\<open>['EC10', 'NOEC']\<close>, which the merge reduces to
  \<^verbatim>\<open>['EC10']\<close>, such a table comes back without a column.
\<close>

theorem two_endpoint_table_without_column:
  "set (map endpoint [row_EC50, row_EC10]) = {''EC50'', ''EC10''} \<and>
   fst (GetOneHotEndpoint [''EC10'', ''NOEC'']
          (PreProcessDataForInference (DataFrame [row_EC50, row_EC10]))) =
     Inr \<lparr>rows = [row_EC50, row_EC10], columns = [], SMILES_Canonical_RDKit = None\<rparr>"
  by (simp add: encoder_eval row_EC50_def row_EC10_def)

text \<open>
  C3, amended: when the working endpoint label list has more than one entry and every
  row reads \<^verbatim>\<open>EC50\<close> or \<^verbatim>\<open>EC10\<close> after the merge, \<^verbatim>\<open>__GetOneHotEndpoint\<close>
  returns the table with the column \<^verbatim>\<open>OneHotEnc_endpoint\<close> whose rows are
  \<^verbatim>\<open>[1, 0]\<close> for \<^verbatim>\<open>EC50\<close> and \<^verbatim>\<open>[0, 1]\<close> for \<^verbatim>\<open>EC10\<close>, and what it returns
  is the same for any other list with the same labels and length, so for any reordering.
  When more than one effect label is declared and every row carries a declared effect,
  \<^verbatim>\<open>__GetOneHotEffect\<close> returns the table with the column \<^verbatim>\<open>OneHotEnc_effect\<close>,
  in which a row whose effect is the label at position \<open>i\<close> of the caller's list (its
  last occurrence there) holds the unit vector with its 1 at position \<open>i\<close>.
\<close>

theorem indicator_positions:
  "(1 < length (fst (merge_step ls self)) \<and>
    (\<forall>r\<in>set (rows (dataframe (snd (merge_step ls self)))).
        endpoint r = ''EC50'' \<or> endpoint r = ''EC10'') \<longrightarrow>
      fst (GetOneHotEndpoint ls self) =
        Inr (setitem ''OneHotEnc_endpoint''
               (NdArrays (map (\<lambda>r. if endpoint r = ''EC50'' then [1, 0] else [0, 1])
                            (rows (dataframe (snd (merge_step ls self))))))
               (dataframe (snd (merge_step ls self))))) \<and>
   (set ls = set ls' \<and> length ls = length ls' \<longrightarrow>
      fst (GetOneHotEndpoint ls self) = fst (GetOneHotEndpoint ls' self)) \<and>
   (1 < length es \<and> (\<forall>r\<in>set (rows (dataframe self)). effect r \<in> set es) \<longrightarrow>
      (\<exists>vs. fst (GetOneHotEffect es self) =
               Inr (setitem ''OneHotEnc_effect'' (NdArrays vs) (dataframe self)) \<and>
            length vs = length (rows (dataframe self)) \<and>
            (\<forall>k<length (rows (dataframe self)). \<forall>i<length es.
               effect (rows (dataframe self) ! k) = es ! i \<and> es ! i \<notin> set (drop (Suc i) es) \<longrightarrow>
                 vs ! k = (replicate (length es) 0)[i := 1])))"
proof (intro conjI impI)
  assume "1 < length (fst (merge_step ls self)) \<and>
    (\<forall>r\<in>set (rows (dataframe (snd (merge_step ls self)))).
        endpoint r = ''EC50'' \<or> endpoint r = ''EC10'')"
  then show "fst (GetOneHotEndpoint ls self) =
        Inr (setitem ''OneHotEnc_endpoint''
               (NdArrays (map (\<lambda>r. if endpoint r = ''EC50'' then [1, 0] else [0, 1])
                            (rows (dataframe (snd (merge_step ls self))))))
               (dataframe (snd (merge_step ls self))))"
    by (simp add: GetOneHotEndpoint_encode)
next
  assume "set ls = set ls' \<and> length ls = length ls'"
  then show "fst (GetOneHotEndpoint ls self) = fst (GetOneHotEndpoint ls' self)"
    by (intro GetOneHotEndpoint_reorder) simp_all
next
  let ?rs = "rows (dataframe self)"
  let ?vs = "map (\<lambda>r. the (dict_zip es (eye (length es)) (effect r))) ?rs"
  assume a: "1 < length es \<and> (\<forall>r\<in>set ?rs. effect r \<in> set es)"
  then have 1: "fst (GetOneHotEffect es self) =
               Inr (setitem ''OneHotEnc_effect'' (NdArrays ?vs) (dataframe self))"
    by (simp add: GetOneHotEffect_encode)
  have 2: "length ?vs = length ?rs"
    by simp
  have 3: "\<forall>k<length ?rs. \<forall>i<length es.
      effect (?rs ! k) = es ! i \<and> es ! i \<notin> set (drop (Suc i) es) \<longrightarrow>
        ?vs ! k = (replicate (length es) 0)[i := 1]"
  proof (intro allI impI)
    fix k i
    assume k: "k < length ?rs" and i: "i < length es"
      and e: "effect (?rs ! k) = es ! i \<and> es ! i \<notin> set (drop (Suc i) es)"
    have "?vs ! k = the (dict_zip es (eye (length es)) (es ! i))"
      using k e by simp
    also have "\<dots> = (replicate (length es) 0)[i := 1]"
      by (rule hot_enc_effect_position) (use i e in simp_all)
    finally show "?vs ! k = (replicate (length es) 0)[i := 1]" .
  qed
  show "\<exists>vs. fst (GetOneHotEffect es self) =
               Inr (setitem ''OneHotEnc_effect'' (NdArrays vs) (dataframe self)) \<and>
            length vs = length ?rs \<and>
            (\<forall>k<length ?rs. \<forall>i<length es.
               effect (?rs ! k) = es ! i \<and> es ! i \<notin> set (drop (Suc i) es) \<longrightarrow>
                 vs ! k = (replicate (length es) 0)[i := 1])"
    using 1 2 3 by (intro exI [of _ ?vs] conjI)
qed


text \<open>
  The amended C3 at a table of an \<^verbatim>\<open>EC50\<close> row and a \<^verbatim>\<open>NOEC\<close> row, with the
  endpoint labels in both orders and the effect labels in both orders.
\<close>

theorem indicator_positions_witness:
  "1 < length (fst (merge_step [''EC10'', ''EC50'']
                      (PreProcessDataForInference (DataFrame [row_EC50, row_NOEC])))) \<and>
   map endpoint (rows (dataframe (snd (merge_step [''EC10'', ''EC50'']
                      (PreProcessDataForInference (DataFrame [row_EC50, row_NOEC])))))) =
     [''EC50'', ''EC10''] \<and>
   fst (GetOneHotEndpoint [''EC10'', ''EC50'']
          (PreProcessDataForInference (DataFrame [row_EC50, row_NOEC]))) =
     Inr \<lparr>rows = [row_EC50, row_NOEC\<lparr>endpoint := ''EC10''\<rparr>],
          columns = [(''OneHotEnc_endpoint'', NdArrays [[1, 0], [0, 1]])],
          SMILES_Canonical_RDKit = None\<rparr> \<and>
   fst (GetOneHotEndpoint [''EC50'', ''EC10'']
          (PreProcessDataForInference (DataFrame [row_EC50, row_NOEC]))) =
     Inr \<lparr>rows = [row_EC50, row_NOEC\<lparr>endpoint := ''EC10''\<rparr>],
          columns = [(''OneHotEnc_endpoint'', NdArrays [[1, 0], [0, 1]])],
          SMILES_Canonical_RDKit = None\<rparr> \<and>
   map effect [row_EC50, row_NOEC] = [''MOR'', ''DVP''] \<and>
   fst (GetOneHotEffect [''DVP'', ''MOR'']
          (PreProcessDataForInference (DataFrame [row_EC50, row_NOEC]))) =
     Inr \<lparr>rows = [row_EC50, row_NOEC],
          columns = [(''OneHotEnc_effect'', NdArrays [[0, 1], [1, 0]])],
          SMILES_Canonical_RDKit = None\<rparr>"
  using indicator_positions
    [of "[''EC10'', ''EC50'']" "PreProcessDataForInference (DataFrame [row_EC50, row_NOEC])"
        "[''EC50'', ''EC10'']" "[''DVP'', ''MOR'']"]
  by (simp add: encoder_eval row_EC50_def row_NOEC_def)

subsection \<open>C7: a label outside the expected ones\<close>

text \<open>
  C7: while an indicator column is being built (the working label list has more than one
  entry), a row whose endpoint after the merge is neither \<^verbatim>\<open>EC50\<close> nor \<^verbatim>\<open>EC10\<close>
  (resp. whose effect is not among the declared effects) makes the encoder raise
  \<^verbatim>\<open>Exception('An unexpected error occurred.')\<close>. The exception leaves
  \<^verbatim>\<open>GetOneHotEnc\<close>, which returns no table, and the encoder that raised has attached
  no column: the added columns of the object are those it had before that encoder.
\<close>

theorem unknown_label_raises:
  "(1 < length (fst (merge_step ls self)) \<and>
    (\<exists>r\<in>set (rows (dataframe (snd (merge_step ls self)))).
        endpoint r \<noteq> ''EC50'' \<and> endpoint r \<noteq> ''EC10'') \<longrightarrow>
      fst (GetOneHotEndpoint ls self) = Inl (Exception ''An unexpected error occurred.'') \<and>
      columns (dataframe (snd (snd (GetOneHotEndpoint ls self)))) = columns (dataframe self) \<and>
      fst (GetOneHotEnc ls es self) = Inl (Exception ''An unexpected error occurred.'') \<and>
      columns (dataframe (snd (snd (GetOneHotEnc ls es self)))) = columns (dataframe self)) \<and>
   (1 < length es \<and> (\<exists>r\<in>set (rows (dataframe self)). effect r \<notin> set es) \<longrightarrow>
      GetOneHotEffect es self = (Inl (Exception ''An unexpected error occurred.''), self)) \<and>
   (\<forall>df1. fst (GetOneHotEndpoint ls self) = Inr df1 \<and>
      1 < length es \<and> (\<exists>r\<in>set (rows (dataframe self)). effect r \<notin> set es) \<longrightarrow>
      fst (GetOneHotEnc ls es self) = Inl (Exception ''An unexpected error occurred.'') \<and>
      columns (dataframe (snd (snd (GetOneHotEnc ls es self)))) = columns df1)"
proof (intro conjI allI impI)
  assume a: "1 < length (fst (merge_step ls self)) \<and>
    (\<exists>r\<in>set (rows (dataframe (snd (merge_step ls self)))).
        endpoint r \<noteq> ''EC50'' \<and> endpoint r \<noteq> ''EC10'')"
  then have r: "GetOneHotEndpoint ls self =
      (Inl (Exception ''An unexpected error occurred.''), fst (merge_step ls self),
       snd (merge_step ls self))"
    by (simp add: GetOneHotEndpoint_raise)
  then have e: "GetOneHotEnc ls es self =
      (Inl (Exception ''An unexpected error occurred.''), fst (merge_step ls self),
       snd (merge_step ls self))"
    by (simp add: GetOneHotEnc_def)
  show "fst (GetOneHotEndpoint ls self) = Inl (Exception ''An unexpected error occurred.'')"
    by (simp add: r)
  show "columns (dataframe (snd (snd (GetOneHotEndpoint ls self)))) = columns (dataframe self)"
    by (simp add: r merge_step_columns)
  show "fst (GetOneHotEnc ls es self) = Inl (Exception ''An unexpected error occurred.'')"
    by (simp add: e)
  show "columns (dataframe (snd (snd (GetOneHotEnc ls es self)))) = columns (dataframe self)"
    by (simp add: e merge_step_columns)
next
  assume "1 < length es \<and> (\<exists>r\<in>set (rows (dataframe self)). effect r \<notin> set es)"
  then show "GetOneHotEffect es self = (Inl (Exception ''An unexpected error occurred.''), self)"
    by (simp add: GetOneHotEffect_raise)
next
  fix df1
  assume a: "fst (GetOneHotEndpoint ls self) = Inr df1 \<and>
      1 < length es \<and> (\<exists>r\<in>set (rows (dataframe self)). effect r \<notin> set es)"
  obtain labels self1 where g: "GetOneHotEndpoint ls self = (Inr df1, labels, self1)"
    using a by (cases "GetOneHotEndpoint ls self") auto
  let ?self1 = "self1\<lparr>dataframe := df1\<rparr>"
  have "map effect (rows df1) = map effect (rows (dataframe self))"
    using a GetOneHotEndpoint_result_rows [of ls self df1] merge_step_effects [of ls self]
    by simp
  then have s: "effect ` set (rows df1) = effect ` set (rows (dataframe self))"
    by (metis set_map)
  from a obtain r where r: "r \<in> set (rows (dataframe self))" "effect r \<notin> set es"
    by blast
  then have "effect r \<in> effect ` set (rows df1)"
    using s by blast
  then obtain r' where r': "r' \<in> set (rows df1)" "effect r' = effect r"
    by auto
  have n: "effect r' \<notin> set es"
    using r(2) r'(2) by simp
  from n r'(1) have "\<exists>r\<in>set (rows df1). effect r \<notin> set es"
    by (rule bexI)
  then have "\<exists>r\<in>set (rows (dataframe ?self1)). effect r \<notin> set es"
    by simp
  with a have "GetOneHotEffect es ?self1 =
      (Inl (Exception ''An unexpected error occurred.''), ?self1)"
    by (simp add: GetOneHotEffect_raise)
  with g have e: "GetOneHotEnc ls es self =
      (Inl (Exception ''An unexpected error occurred.''), labels, ?self1)"
    by (rule GetOneHotEnc_effect_raise)
  show "fst (GetOneHotEnc ls es self) = Inl (Exception ''An unexpected error occurred.'')"
    by (simp add: e)
  show "columns (dataframe (snd (snd (GetOneHotEnc ls es self)))) = columns df1"
    by (simp add: e)
qed

text \<open>
  C7 at a table with an \<^verbatim>\<open>LC50\<close> row, for the endpoint, and at a table with an
  \<^verbatim>\<open>ITX\<close> row, for the effect.
\<close>

theorem unknown_label_raises_witness:
  "1 < length (fst (merge_step [''EC50'', ''EC10'']
                      (PreProcessDataForInference (DataFrame [row_EC50, row_LC50])))) \<and>
   map endpoint (rows (dataframe (snd (merge_step [''EC50'', ''EC10'']
                      (PreProcessDataForInference (DataFrame [row_EC50, row_LC50])))))) =
     [''EC50'', ''LC50''] \<and>
   fst (GetOneHotEnc [''EC50'', ''EC10''] [''MOR'', ''DVP'']
          (PreProcessDataForInference (DataFrame [row_EC50, row_LC50]))) =
     Inl (Exception ''An unexpected error occurred.'') \<and>
   columns (dataframe (snd (snd (GetOneHotEnc [''EC50'', ''EC10''] [''MOR'', ''DVP'']
          (PreProcessDataForInference (DataFrame [row_EC50, row_LC50])))))) = [] \<and>
   map effect [row_EC50, row_ITX] = [''MOR'', ''ITX''] \<and>
   fst (GetOneHotEndpoint [''EC50'', ''EC10'']
          (PreProcessDataForInference (DataFrame [row_EC50, row_ITX]))) =
     Inr \<lparr>rows = [row_EC50, row_ITX],
          columns = [(''OneHotEnc_endpoint'', NdArrays [[1, 0], [1, 0]])],
          SMILES_Canonical_RDKit = None\<rparr> \<and>
   fst (GetOneHotEnc [''EC50'', ''EC10''] [''MOR'', ''DVP'']
          (PreProcessDataForInference (DataFrame [row_EC50, row_ITX]))) =
     Inl (Exception ''An unexpected error occurred.'') \<and>
   columns (dataframe (snd (snd (GetOneHotEnc [''EC50'', ''EC10''] [''MOR'', ''DVP'']
          (PreProcessDataForInference (DataFrame [row_EC50, row_ITX])))))) =
     [(''OneHotEnc_endpoint'', NdArrays [[1, 0], [1, 0]])]"
  using unknown_label_raises
    [of "[''EC50'', ''EC10'']" "PreProcessDataForInference (DataFrame [row_EC50, row_LC50])"
        "[''MOR'', ''DVP'']"]
    unknown_label_raises
    [of "[''EC50'', ''EC10'']" "PreProcessDataForInference (DataFrame [row_EC50, row_ITX])"
        "[''MOR'', ''DVP'']"]
  by (simp add: encoder_eval GetOneHotEnc_def row_EC50_def row_LC50_def row_ITX_def)

subsection \<open>C5: the order of the batches\<close>

text \<open>
  C5: for a table of \<open>n\<close> rows and a batch size \<open>b\<close> (positive: torch builds no
  loader otherwise), the loader's batches of row indices, one after the other, are
  \<open>0, \<dots>, n - 1\<close> in order; every batch but the last holds \<open>b\<close> indices and the
  last one holds at least one and at most \<open>b\<close>. The records of a batch are those of
  its indices, in order: when every row gives a record \<open>g i\<close>, the loader hands
  \<open>map (map g)\<close> of the index batches to its collator.
\<close>

theorem batches_in_row_order:
  "(0 < bs \<longrightarrow>
      (\<exists>bss. DataLoader_index_batches df bs = Inr bss \<and>
             concat bss = [0..<length (rows df)] \<and>
             (\<forall>k. Suc k < length bss \<longrightarrow> length (bss ! k) = nat bs) \<and>
             (bss \<noteq> [] \<longrightarrow> last bss \<noteq> [] \<and> length (last bss) \<le> nat bs) \<and>
             ((\<forall>i<length (rows df).
                 Inference_dataset_getitem tokenizer df variables max_length i = Inr (g i)) \<longrightarrow>
                dataloader_samples tokenizer df variables bs max_length =
                  Inr (map (map g) bss)))) \<and>
   (bs \<le> 0 \<longrightarrow> DataLoader_index_batches df bs = Inl ValueError)"
proof (intro conjI impI)
  assume bs: "0 < bs"
  let ?bss = "BatchSampler (nat bs) [] (SequentialSampler (length (rows df)))"
  let ?f = "Inference_dataset_getitem tokenizer df variables max_length"
  have 1: "DataLoader_index_batches df bs = Inr ?bss"
    using bs by (simp add: DataLoader_index_batches_def)
  have 2: "concat ?bss = [0..<length (rows df)]"
    by (simp add: concat_BatchSampler SequentialSampler_def)
  have 3: "\<forall>k. Suc k < length ?bss \<longrightarrow> length (?bss ! k) = nat bs"
    using bs by (simp add: BatchSampler_full)
  have 4: "?bss \<noteq> [] \<longrightarrow> last ?bss \<noteq> [] \<and> length (last ?bss) \<le> nat bs"
    using bs by (simp add: BatchSampler_last)
  have 5: "(\<forall>i<length (rows df). ?f i = Inr (g i)) \<longrightarrow>
             dataloader_samples tokenizer df variables bs max_length = Inr (map (map g) ?bss)"
  proof
    assume a: "\<forall>i<length (rows df). ?f i = Inr (g i)"
    have "\<forall>batch\<in>set ?bss. apply_series ?f batch = Inr (map g batch)"
    proof
      fix batch
      assume "batch \<in> set ?bss"
      then have "set batch \<subseteq> set (concat ?bss)"
        by auto
      then have "\<forall>i\<in>set batch. ?f i = Inr (g i)"
        using a by (auto simp: 2)
      then show "apply_series ?f batch = Inr (map g batch)"
        by (rule apply_series_total)
    qed
    then have "apply_series (apply_series ?f) ?bss = Inr (map (map g) ?bss)"
      by (rule apply_series_total)
    then show "dataloader_samples tokenizer df variables bs max_length = Inr (map (map g) ?bss)"
      by (simp add: dataloader_samples_def and_then_def 1)
  qed
  show "\<exists>bss. DataLoader_index_batches df bs = Inr bss \<and>
             concat bss = [0..<length (rows df)] \<and>
             (\<forall>k. Suc k < length bss \<longrightarrow> length (bss ! k) = nat bs) \<and>
             (bss \<noteq> [] \<longrightarrow> last bss \<noteq> [] \<and> length (last bss) \<le> nat bs) \<and>
             ((\<forall>i<length (rows df). ?f i = Inr (g i)) \<longrightarrow>
                dataloader_samples tokenizer df variables bs max_length =
                  Inr (map (map g) bss))"
    using 1 2 3 4 5 by (intro exI [of _ ?bss] conjI)
next
  assume "bs \<le> 0"
  then show "DataLoader_index_batches df bs = Inl ValueError"
    by (simp add: DataLoader_index_batches_def)
qed


text \<open>C5 at a table of three rows and batches of two.\<close>

theorem batches_in_row_order_witness:
  "(0::int) < 2 \<and>
   DataLoader_index_batches df_ready 2 = Inr [[0, 1], [2]] \<and>
   dataloader_samples toy_tokenizer df_ready
     [''SMILES_Canonical_RDKit'', ''exposure_duration'', ''OneHotEnc_concatenated''] 2 3 =
     Inr [[\<lparr>input_ids = [2, 2, 2], attention_mask = [1, 1, 1],
             duration = Scalar 96, onehotenc = Vector [0]\<rparr>,
           \<lparr>input_ids = [1, 1, 2], attention_mask = [1, 1, 1],
             duration = Scalar 96, onehotenc = Vector [0]\<rparr>],
          [\<lparr>input_ids = [1, 1, 2], attention_mask = [1, 1, 1],
             duration = Scalar 48, onehotenc = Vector [0]\<rparr>]]"
  using batches_in_row_order
    [of 2 df_ready toy_tokenizer
        "[''SMILES_Canonical_RDKit'', ''exposure_duration'', ''OneHotEnc_concatenated'']" 3
        "\<lambda>i. [\<lparr>input_ids = [2, 2, 2], attention_mask = [1, 1, 1],
                 duration = Scalar 96, onehotenc = Vector [0]\<rparr>,
               \<lparr>input_ids = [1, 1, 2], attention_mask = [1, 1, 1],
                 duration = Scalar 96, onehotenc = Vector [0]\<rparr>,
               \<lparr>input_ids = [1, 1, 2], attention_mask = [1, 1, 1],
                 duration = Scalar 48, onehotenc = Vector [0]\<rparr>] ! i"]
  by (simp add: loader_eval df_ready_def row_EC50_def row_EC10_def row_NOEC_def)

subsection \<open>C6: the fallback of the normalizer\<close>

text \<open>
  C6: \<^verbatim>\<open>__CanonicalizeRDKit\<close> returns a string for every input, and it returns its
  argument whenever the body of its \<^verbatim>\<open>try\<close> raises: when the parser raises, when the
  parser returns \<^verbatim>\<open>None\<close> (writing \<^verbatim>\<open>None\<close> raises), or when the writer raises.
  \<^verbatim>\<open>GetCanonicalSMILES\<close> then gives every row an entry of the new column, and the
  entry of a row that failed is its \<^verbatim>\<open>SMILES\<close>.
\<close>

theorem canonicalize_falls_back_to_input:
  "((\<exists>e. MolFromSmiles s = Inl e) \<or> MolFromSmiles s = Inr None \<or>
    (\<exists>mol e. MolFromSmiles s = Inr (Some mol) \<and> MolToSmiles mol = Inl e) \<longrightarrow>
      CanonicalizeRDKit MolFromSmiles MolToSmiles s = s) \<and>
   (\<exists>cs. SMILES_Canonical_RDKit (fst (GetCanonicalSMILES MolFromSmiles MolToSmiles self)) = Some cs \<and>
         length cs = length (rows (dataframe self)) \<and>
         (\<forall>i<length (rows (dataframe self)).
            (\<exists>e. MolFromSmiles (SMILES (rows (dataframe self) ! i)) = Inl e) \<or>
            MolFromSmiles (SMILES (rows (dataframe self) ! i)) = Inr None \<longrightarrow>
              cs ! i = SMILES (rows (dataframe self) ! i)))"
  by (auto simp: CanonicalizeRDKit_def MolToSmiles_of_def GetCanonicalSMILES_def Let_def)

text \<open>
  C6 with the toy toolkit: \<^verbatim>\<open>OCC\<close> is rewritten, \<^verbatim>\<open>C1=CC=CC=C1\<close> and
  \<^verbatim>\<open>CCN\<close>, which it cannot parse, are returned as they are.
\<close>

theorem canonicalize_falls_back_to_input_witness:
  "toy_MolFromSmiles ''CCN'' = Inr None \<and>
   CanonicalizeRDKit toy_MolFromSmiles toy_MolToSmiles ''CCN'' = ''CCN'' \<and>
   CanonicalizeRDKit toy_MolFromSmiles toy_MolToSmiles ''OCC'' = ''CCO'' \<and>
   SMILES_Canonical_RDKit
     (fst (GetCanonicalSMILES toy_MolFromSmiles toy_MolToSmiles
             (PreProcessDataForInference (DataFrame [row_EC50, row_EC10, row_NOEC])))) =
     Some [''C1=CC=CC=C1'', ''CCO'', ''CCN'']"
  using canonicalize_falls_back_to_input
    [of toy_MolFromSmiles "''CCN''" toy_MolToSmiles
        "PreProcessDataForInference (DataFrame [row_EC50, row_EC10, row_NOEC])"]
  by (simp add: CanonicalizeRDKit_def MolToSmiles_of_def GetCanonicalSMILES_def Let_def
      toy_MolFromSmiles_def toy_MolToSmiles_def PreProcessDataForInference_def DataFrame_def
      row_EC50_def row_EC10_def row_NOEC_def)

subsection \<open>C4: the combined feature vector\<close>

text \<open>
  C4: for a table without added columns that \<^verbatim>\<open>GetOneHotEnc\<close> has processed, the
  added columns are the one-hot columns that were built, the endpoint column before the
  effect column, followed by \<^verbatim>\<open>OneHotEnc_concatenated\<close>. The entry of a row in that
  last column is the concatenation, from left to right, of the row's vectors in the
  one-hot columns when there is at least one, and the vector \<^verbatim>\<open>[0.0]\<close> of a single
  zero when there is none.
\<close>

theorem combined_features_concatenate:
  assumes "columns (dataframe self) = []" and "fst (GetOneHotEnc ls es self) = Inr df"
  shows "\<exists>onehots comb.
           columns df = onehots @ [(''OneHotEnc_concatenated'', Lists comb)] \<and>
           map fst onehots =
             (if 1 < length (fst (merge_step ls self)) then [''OneHotEnc_endpoint''] else []) @
             (if 1 < length es then [''OneHotEnc_effect''] else []) \<and>
           length comb = length (rows df) \<and>
           (\<forall>k<length (rows df).
              comb ! k =
                (if onehots = [] then [0]
                 else concat (map (\<lambda>(name, col). cells col ! k) onehots)))"
proof -
  let ?E = "1 < length (fst (merge_step ls self))"
  let ?F = "1 < length es"
  from GetOneHotEnc_structure [OF assms] obtain ev fv where
    l: "length ev = length (rows df)" "length fv = length (rows df)" and
    c: "columns df =
          (if ?E then [(''OneHotEnc_endpoint'', NdArrays ev)] else []) @
          (if ?F then [(''OneHotEnc_effect'', NdArrays fv)] else []) @
          [(''OneHotEnc_concatenated'',
            Lists (if ?E then (if ?F then map2 (@) ev fv else ev)
                   else (if ?F then fv else replicate (length (rows df)) [0])))]"
    by blast
  let ?onehots = "(if ?E then [(''OneHotEnc_endpoint'', NdArrays ev)] else []) @
                  (if ?F then [(''OneHotEnc_effect'', NdArrays fv)] else [])"
  let ?comb = "if ?E then (if ?F then map2 (@) ev fv else ev)
               else (if ?F then fv else replicate (length (rows df)) [0])"
  have 1: "columns df = ?onehots @ [(''OneHotEnc_concatenated'', Lists ?comb)]"
    using c by simp
  have 2: "map fst ?onehots =
             (if ?E then [''OneHotEnc_endpoint''] else []) @
             (if ?F then [''OneHotEnc_effect''] else [])"
    by simp
  have 3: "length ?comb = length (rows df)"
    using l by simp
  have 4: "\<forall>k<length (rows df).
             ?comb ! k =
               (if ?onehots = [] then [0]
                else concat (map (\<lambda>(name, col). cells col ! k) ?onehots))"
    using l by simp
  show ?thesis
    using 1 2 3 4 by (intro exI [of _ ?onehots] exI [of _ ?comb] conjI)
qed

text \<open>
  C4 at a table of an \<^verbatim>\<open>EC50\<close> row and a \<^verbatim>\<open>NOEC\<close> row: with two endpoint and
  two effect labels, and with one of each.
\<close>

theorem combined_features_concatenate_witness:
  "columns (dataframe (PreProcessDataForInference (DataFrame [row_EC50, row_NOEC]))) = [] \<and>
   fst (GetOneHotEnc [''EC50'', ''EC10''] [''MOR'', ''DVP'']
          (PreProcessDataForInference (DataFrame [row_EC50, row_NOEC]))) =
     Inr \<lparr>rows = [row_EC50, row_NOEC\<lparr>endpoint := ''EC10''\<rparr>],
          columns = [(''OneHotEnc_endpoint'', NdArrays [[1, 0], [0, 1]]),
                     (''OneHotEnc_effect'', NdArrays [[1, 0], [0, 1]]),
                     (''OneHotEnc_concatenated'', Lists [[1, 0, 1, 0], [0, 1, 0, 1]])],
          SMILES_Canonical_RDKit = None\<rparr> \<and>
   fst (GetOneHotEnc [''EC50''] [''MOR'']
          (PreProcessDataForInference (DataFrame [row_EC50, row_NOEC]))) =
     Inr \<lparr>rows = [row_EC50, row_NOEC],
          columns = [(''OneHotEnc_concatenated'', Lists [[0], [0]])],
          SMILES_Canonical_RDKit = None\<rparr>"
  using combined_features_concatenate
    [of "PreProcessDataForInference (DataFrame [row_EC50, row_NOEC])"
        "[''EC50'', ''EC10'']" "[''MOR'', ''DVP'']"
        "\<lparr>rows = [row_EC50, row_NOEC\<lparr>endpoint := ''EC10''\<rparr>],
          columns = [(''OneHotEnc_endpoint'', NdArrays [[1, 0], [0, 1]]),
                     (''OneHotEnc_effect'', NdArrays [[1, 0], [0, 1]]),
                     (''OneHotEnc_concatenated'', Lists [[1, 0, 1, 0], [0, 1, 0, 1]])],
          SMILES_Canonical_RDKit = None\<rparr>"]
  by (simp add: encoder_eval assembler_eval row_EC50_def row_NOEC_def)

subsection \<open>C8: feature vectors of different lengths\<close>

text \<open>
  C8 says that the pipeline reports combined feature vectors of different lengths before
  the batch is padded. Neither the dataset nor the loader compares lengths: for a table of
  two rows whose vectors have the lengths 2 and 1, the loader builds both records and hands
  them, in one batch, to the collator.
\<close>

theorem ragged_table_reaches_collator:
  "dataloader_samples toy_tokenizer df_ragged
     [''SMILES_Canonical_RDKit'', ''exposure_duration'', ''OneHotEnc_concatenated''] 2 100 =
     Inr [[\<lparr>input_ids = [2, 2, 2, 2, 2, 2, 2, 2], attention_mask = [1, 1, 1, 1, 1, 1, 1, 1],
             duration = Scalar 96, onehotenc = Vector [1, 0]\<rparr>,
           \<lparr>input_ids = [1, 1, 2], attention_mask = [1, 1, 1],
             duration = Scalar 96, onehotenc = Vector [0]\<rparr>]]"
  by (simp add: loader_eval df_ragged_def row_EC50_def row_EC10_def)

text \<open>
  C8, amended: the combined feature vectors that \<^verbatim>\<open>GetOneHotEnc\<close> builds for a table
  without added columns all have one length (2 for the endpoint plus the number of effect
  labels for the effect, as far as these columns were built, and 1 when neither was), so
  the assembler yields no table with vectors of different lengths. The dataset does not
  check the vectors: the record of a row holds the row's vector as it is in the table.
\<close>

theorem combined_features_one_length:
  "(columns (dataframe self) = [] \<and> fst (GetOneHotEnc ls es self) = Inr df \<longrightarrow>
      (\<exists>comb. map_of (columns df) ''OneHotEnc_concatenated'' = Some (Lists comb) \<and>
              length comb = length (rows df) \<and>
              (\<forall>v\<in>set comb.
                 length v =
                   (if 1 < length (fst (merge_step ls self)) \<or> 1 < length es
                    then (if 1 < length (fst (merge_step ls self)) then 2 else 0) +
                         (if 1 < length es then length es else 0)
                    else 1)))) \<and>
   (map_of (columns df') ''OneHotEnc_concatenated'' = Some (Lists comb') \<and>
    Inference_dataset_getitem tokenizer df' [v0, v1, ''OneHotEnc_concatenated''] max_len idx = Inr s \<longrightarrow>
      onehotenc s = Vector (map real_of_int (comb' ! idx)))"
proof (intro conjI impI)
  let ?E = "1 < length (fst (merge_step ls self))"
  let ?F = "1 < length es"
  assume a: "columns (dataframe self) = [] \<and> fst (GetOneHotEnc ls es self) = Inr df"
  then have a1: "columns (dataframe self) = []" and a2: "fst (GetOneHotEnc ls es self) = Inr df"
    by simp_all
  from GetOneHotEnc_structure [OF a1 a2] obtain ev fv where
    l: "length ev = length (rows df)" "length fv = length (rows df)" and
    w: "\<forall>v\<in>set ev. length v = 2" "?F \<longrightarrow> (\<forall>v\<in>set fv. length v = length es)" and
    c: "columns df =
          (if ?E then [(''OneHotEnc_endpoint'', NdArrays ev)] else []) @
          (if ?F then [(''OneHotEnc_effect'', NdArrays fv)] else []) @
          [(''OneHotEnc_concatenated'',
            Lists (if ?E then (if ?F then map2 (@) ev fv else ev)
                   else (if ?F then fv else replicate (length (rows df)) [0])))]"
    by blast
  let ?comb = "if ?E then (if ?F then map2 (@) ev fv else ev)
               else (if ?F then fv else replicate (length (rows df)) [0])"
  have 1: "map_of (columns df) ''OneHotEnc_concatenated'' = Some (Lists ?comb)"
    by (simp add: c)
  have 2: "length ?comb = length (rows df)"
    using l by simp
  have 3: "\<forall>v\<in>set ?comb.
             length v = (if ?E \<or> ?F then (if ?E then 2 else 0) + (if ?F then length es else 0)
                         else 1)"
  proof (cases ?E)
    case E: True
    show ?thesis
    proof (cases ?F)
      case True
      have "\<forall>v\<in>set (map2 (@) ev fv). length v = 2 + length es"
      proof
        fix v
        assume "v \<in> set (map2 (@) ev fv)"
        then obtain a b where ab: "(a, b) \<in> set (zip ev fv)" "v = a @ b"
          by auto
        then have "a \<in> set ev" "b \<in> set fv"
          by (auto dest: set_zip_leftD set_zip_rightD)
        with w True ab show "length v = 2 + length es"
          by simp
      qed
      with E True show ?thesis by simp
    next
      case False
      with E w show ?thesis by simp
    qed
  next
    case E: False
    show ?thesis
    proof (cases ?F)
      case True
      with E w show ?thesis by simp
    next
      case False
      with E show ?thesis by simp
    qed
  qed
  show "\<exists>comb. map_of (columns df) ''OneHotEnc_concatenated'' = Some (Lists comb) \<and>
              length comb = length (rows df) \<and>
              (\<forall>v\<in>set comb.
                 length v = (if ?E \<or> ?F
                    then (if ?E then 2 else 0) + (if ?F then length es else 0)
                    else 1))"
    using 1 2 3 by (intro exI [of _ ?comb] conjI)
next
  assume "map_of (columns df') ''OneHotEnc_concatenated'' = Some (Lists comb') \<and>
    Inference_dataset_getitem tokenizer df' [v0, v1, ''OneHotEnc_concatenated''] max_len idx = Inr s"
  then show "onehotenc s = Vector (map real_of_int (comb' ! idx))"
    using getitem_onehotenc [of df' comb' tokenizer v0 v1 max_len idx s] by simp
qed


text \<open>
  The amended C8 at a table of an \<^verbatim>\<open>EC50\<close> row and a \<^verbatim>\<open>NOEC\<close> row with two
  endpoint and two effect labels, where both vectors have the length 4, and at the first
  row of the table of three rows.
\<close>

theorem combined_features_one_length_witness:
  "columns (dataframe (PreProcessDataForInference (DataFrame [row_EC50, row_NOEC]))) = [] \<and>
   fst (GetOneHotEnc [''EC50'', ''EC10''] [''MOR'', ''DVP'']
          (PreProcessDataForInference (DataFrame [row_EC50, row_NOEC]))) =
     Inr \<lparr>rows = [row_EC50, row_NOEC\<lparr>endpoint := ''EC10''\<rparr>],
          columns = [(''OneHotEnc_endpoint'', NdArrays [[1, 0], [0, 1]]),
                     (''OneHotEnc_effect'', NdArrays [[1, 0], [0, 1]]),
                     (''OneHotEnc_concatenated'', Lists [[1, 0, 1, 0], [0, 1, 0, 1]])],
          SMILES_Canonical_RDKit = None\<rparr> \<and>
   map length [[1, 0, 1, 0], [0, 1, 0, 1 :: int]] = [4, 4] \<and>
   map_of (columns df_ready) ''OneHotEnc_concatenated'' = Some (Lists [[0], [0], [0]]) \<and>
   Inference_dataset_getitem toy_tokenizer df_ready
     [''SMILES_Canonical_RDKit'', ''exposure_duration'', ''OneHotEnc_concatenated''] 3 0 =
     Inr \<lparr>input_ids = [2, 2, 2], attention_mask = [1, 1, 1],
          duration = Scalar 96, onehotenc = Vector [0]\<rparr>"
  using combined_features_one_length
    [of "PreProcessDataForInference (DataFrame [row_EC50, row_NOEC])"
        "[''EC50'', ''EC10'']" "[''MOR'', ''DVP'']"
        "\<lparr>rows = [row_EC50, row_NOEC\<lparr>endpoint := ''EC10''\<rparr>],
          columns = [(''OneHotEnc_endpoint'', NdArrays [[1, 0], [0, 1]]),
                     (''OneHotEnc_effect'', NdArrays [[1, 0], [0, 1]]),
                     (''OneHotEnc_concatenated'', Lists [[1, 0, 1, 0], [0, 1, 0, 1]])],
          SMILES_Canonical_RDKit = None\<rparr>"
        df_ready "[[0], [0], [0]]" toy_tokenizer "''SMILES_Canonical_RDKit''"
        "''exposure_duration''" 3 0
        "\<lparr>input_ids = [2, 2, 2], attention_mask = [1, 1, 1],
          duration = Scalar 96, onehotenc = Vector [0]\<rparr>"]
  by (simp add: encoder_eval assembler_eval loader_eval df_ready_def
      row_EC50_def row_EC10_def row_NOEC_def)

subsection \<open>C9: the table of predictions\<close>

text \<open>
  In batch mode \<^verbatim>\<open>app.py\<close> shows no table of predictions. With an uploaded file
  that pandas can read, a run stops at line 40 with a \<^verbatim>\<open>NameError\<close>: the name
  \<^verbatim>\<open>PreProcessDataForInference\<close> is bound nowhere in the script. Without a file, a
  press of the button stops in \<^verbatim>\<open>loadtokenizer\<close> with a \<^verbatim>\<open>NameError\<close> for
  \<^verbatim>\<open>AutoTokenizer\<close>, if the model could be loaded. No run returns a table.
\<close>

lemma batch_branch_shows_no_table:
  "batch_branch app_globals read_csv lines_40_to_43 loadmodel from_pretrained lines_56_to_74
     (Some f) button =
     and_then (read_csv f) (\<lambda>df. Inl (NameError ''PreProcessDataForInference'')) \<and>
   batch_branch app_globals read_csv lines_40_to_43 loadmodel from_pretrained lines_56_to_74
     None True =
     and_then loadmodel (\<lambda>model. Inl (NameError ''AutoTokenizer'')) \<and>
   batch_branch app_globals read_csv lines_40_to_43 loadmodel from_pretrained lines_56_to_74
     file_up button \<noteq> Inr (Some result)"
proof -
  have 1: "load_global app_globals ''PreProcessDataForInference'' =
             Inl (NameError ''PreProcessDataForInference'')"
    by (simp add: load_global_def app_globals_def)
  have 2: "load_global app_globals ''AutoTokenizer'' = Inl (NameError ''AutoTokenizer'')"
    by (simp add: load_global_def app_globals_def)
  have a: "batch_branch app_globals read_csv lines_40_to_43 loadmodel from_pretrained
             lines_56_to_74 (Some f) button =
           and_then (read_csv f) (\<lambda>df. Inl (NameError ''PreProcessDataForInference''))"
    for f button
    by (cases "read_csv f") (simp_all add: batch_branch_def upload_part_def and_then_def 1)
  have b: "batch_branch app_globals read_csv lines_40_to_43 loadmodel from_pretrained
             lines_56_to_74 None True =
           and_then loadmodel (\<lambda>model. Inl (NameError ''AutoTokenizer''))"
    by (cases loadmodel)
       (simp_all add: batch_branch_def predict_button_def loadtokenizer_def and_then_def 2)
  have c: "batch_branch app_globals read_csv lines_40_to_43 loadmodel from_pretrained
             lines_56_to_74 None False = Inr None"
    by (simp add: batch_branch_def and_then_def)
  have d: "batch_branch app_globals read_csv lines_40_to_43 loadmodel from_pretrained
             lines_56_to_74 file_up button \<noteq> Inr (Some result)"
  proof (cases file_up)
    case None
    then show ?thesis
      using b c by (cases button; cases loadmodel) (simp_all add: and_then_def)
  next
    case (Some f)
    then show ?thesis
      using a [of f button] by (cases "read_csv f") (simp_all add: and_then_def)
  qed
  show ?thesis
    using a [of f button] b d by simp
qed

text \<open>
  C9 says that a prediction request over a table of \<open>n\<close> rows gives a table with the
  \<open>n\<close> rows and two columns of predictions. For an uploaded table of one row, read
  by \<^verbatim>\<open>pd.read_csv\<close>, and a press of \<^verbatim>\<open>Predict\<close>, the batch branch of
  \<^verbatim>\<open>app.py\<close> raises \<^verbatim>\<open>NameError\<close> for \<^verbatim>\<open>PreProcessDataForInference\<close> and
  gives no table, whatever the model, the tokenizer and the rest of the handler do.
\<close>

theorem batch_request_raises_NameError:
  "batch_branch app_globals (\<lambda>rs. Inr (DataFrame rs)) lines_40_to_43 loadmodel
     from_pretrained lines_56_to_74 (Some [row_EC50]) True =
     Inl (NameError ''PreProcessDataForInference'')"
  by (simp add: batch_branch_def upload_part_def and_then_def load_global_def app_globals_def)

end
